theory Spec2Isabelle
  imports Complex_Main
begin

section \<open>Python values and errors shared by the notebook models\<close>

text \<open>
  The repository is a set of Jupyter notebooks. The cells whose properties are about
  computed values are embedded as HOL functions; an exception that a cell can raise is a
  value of \<open>py_error\<close>, returned as \<open>Inl\<close>. The timestamps of the CuPy demo and the ratio
  of the nearest-neighbours cell are kept as real numbers. The scores of the k-means cell
  and the matrices of the PCA pipeline are doubles, and the operations on them round.
\<close>

datatype py_error =
    NameError string
  | IndexError
  | ZeroDivisionError
  | ImportError string

section \<open>Double-precision arithmetic\<close>















section \<open>kmeans\_demo.ipynb: the label comparison cell\<close>




section \<open>Intro\_to\_CuPy.ipynb: the timing cells\<close>

text \<open>
  The kernel's namespace after \<^verbatim>\<open>import numpy as np; import cupy as cp; import time\<close>.
  The notebook binds \<open>s\<close>, \<open>e\<close>, \<open>cpu_time\<close> and \<open>gpu_time\<close> to floats only and \<open>x_cpu\<close>,
  \<open>x_gpu\<close> to arrays only, so the namespace is kept as two maps. Every array of the notebook
  is created by \<open>ones\<close> and then updated elementwise, so all its elements are equal: an
  array is its shape and that element. \<open>ticks\<close> counts the calls of \<open>time.time()\<close> made so
  far, and \<open>out\<close> is what the cells have printed.
\<close>

record ndarray =
  shape :: "nat list"
  elem :: real


record kernel =
  floats :: "string \<rightharpoonup> real"
  arrays :: "string \<rightharpoonup> ndarray"
  ticks :: nat
  out :: "real list"

type_synonym clock = "nat \<Rightarrow> real"
type_synonym stmt_fn = "kernel \<Rightarrow> py_error + kernel"

text \<open>\<^verbatim>\<open>v = time.time()\<close>: the \<open>n\<close>-th call of \<open>time.time()\<close> returns \<open>clk n\<close>.\<close>

definition stamp :: "clock \<Rightarrow> string \<Rightarrow> stmt_fn" where
  "stamp clk v k =
     Inr (k\<lparr>floats := (floats k)(v \<mapsto> clk (ticks k)), ticks := ticks k + 1\<rparr>)"

text \<open>\<^verbatim>\<open>v = np.ones(sh)\<close> and \<^verbatim>\<open>v = cp.ones(sh)\<close>.\<close>

definition ones :: "string \<Rightarrow> nat list \<Rightarrow> stmt_fn" where
  "ones v sh k = Inr (k\<lparr>arrays := (arrays k)(v \<mapsto> \<lparr>shape = sh, elem = 1\<rparr>)\<rparr>)"

text \<open>\<^verbatim>\<open>v *= c\<close>, \<^verbatim>\<open>v *= v\<close> and \<^verbatim>\<open>v += v\<close> on an array.\<close>

definition update_array :: "string \<Rightarrow> (real \<Rightarrow> real) \<Rightarrow> stmt_fn" where
  "update_array v f k =
     (case arrays k v of
        None \<Rightarrow> Inl (NameError v)
      | Some a \<Rightarrow> Inr (k\<lparr>arrays := (arrays k)(v \<mapsto> a\<lparr>elem := f (elem a)\<rparr>)\<rparr>))"

definition imul :: "string \<Rightarrow> real \<Rightarrow> stmt_fn" where
  "imul v c = update_array v (\<lambda>x. x * c)"

definition imul_self :: "string \<Rightarrow> stmt_fn" where
  "imul_self v = update_array v (\<lambda>x. x * x)"

definition iadd_self :: "string \<Rightarrow> stmt_fn" where
  "iadd_self v = update_array v (\<lambda>x. x + x)"

text \<open>\<^verbatim>\<open>cp.cuda.Stream.null.synchronize()\<close> blocks and binds nothing.\<close>

definition synchronize :: stmt_fn where
  "synchronize k = Inr k"

text \<open>\<^verbatim>\<open>v = e - s\<close>.\<close>

definition elapsed :: "string \<Rightarrow> stmt_fn" where
  "elapsed v k =
     (case floats k ''e'' of
        None \<Rightarrow> Inl (NameError ''e'')
      | Some e \<Rightarrow>
          (case floats k ''s'' of
             None \<Rightarrow> Inl (NameError ''s'')
           | Some s \<Rightarrow> Inr (k\<lparr>floats := (floats k)(v \<mapsto> e - s)\<rparr>)))"

text \<open>\<^verbatim>\<open>print(v)\<close>.\<close>

definition print_var :: "string \<Rightarrow> stmt_fn" where
  "print_var v k =
     (case floats k v of
        None \<Rightarrow> Inl (NameError v)
      | Some x \<Rightarrow> Inr (k\<lparr>out := out k @ [x]\<rparr>))"

text \<open>\<^verbatim>\<open>print(a/b)\<close>: float division raises on a zero divisor.\<close>

definition print_ratio :: "string \<Rightarrow> string \<Rightarrow> stmt_fn" where
  "print_ratio a b k =
     (case floats k a of
        None \<Rightarrow> Inl (NameError a)
      | Some x \<Rightarrow>
          (case floats k b of
             None \<Rightarrow> Inl (NameError b)
           | Some y \<Rightarrow>
               if y = 0 then Inl ZeroDivisionError
               else Inr (k\<lparr>out := out k @ [x / y]\<rparr>)))"


text \<open>The cell under \<^verbatim>\<open>## n = 1000,00,00\<close> that creates the arrays (shape \<open>(1000,100,100)\<close>).\<close>

definition cell_create_10M :: "clock \<Rightarrow> stmt_fn list" where
  "cell_create_10M clk =
     [stamp clk ''s'',
      ones ''x_cpu'' [1000, 100, 100],
      stamp clk ''e'',
      elapsed ''cpu_time'',
      print_var ''cpu_time'',
      stamp clk ''s'',
      ones ''x_gpu'' [1000, 100, 100],
      synchronize,
      stamp clk ''e'',
      elapsed ''gpu_time'',
      print_var ''gpu_time'',
      print_ratio ''cpu_time'' ''gpu_time'']"

text \<open>
  The next cell multiplies both arrays by 5. Its CPU block has no \<^verbatim>\<open>cpu_time = e - s\<close>:
  \<^verbatim>\<open>
  s = time.time()
  x_cpu *= 5
  e = time.time()
  print(cpu_time)

  s = time.time()
  x_gpu *= 5
  cp.cuda.Stream.null.synchronize()
  e = time.time()
  gpu_time = e - s
  print(gpu_time)

  print(cpu_time/gpu_time)
  \<close>
\<close>

definition cell_multiply_10M :: "clock \<Rightarrow> stmt_fn list" where
  "cell_multiply_10M clk =
     [stamp clk ''s'',
      imul ''x_cpu'' 5,
      stamp clk ''e'',
      print_var ''cpu_time'',
      stamp clk ''s'',
      imul ''x_gpu'' 5,
      synchronize,
      stamp clk ''e'',
      elapsed ''gpu_time'',
      print_var ''gpu_time'',
      print_ratio ''cpu_time'' ''gpu_time'']"

text \<open>
  The second cell of the demo multiplies the arrays of shape \<open>(1000,1000,100)\<close> made by
  the first cell; its CPU block does assign \<open>cpu_time\<close>.
\<close>

definition cell_create_100M :: "clock \<Rightarrow> stmt_fn list" where
  "cell_create_100M clk =
     [stamp clk ''s'',
      ones ''x_cpu'' [1000, 1000, 100],
      stamp clk ''e'',
      elapsed ''cpu_time'',
      print_var ''cpu_time'',
      stamp clk ''s'',
      ones ''x_gpu'' [1000, 1000, 100],
      synchronize,
      stamp clk ''e'',
      elapsed ''gpu_time'',
      print_var ''gpu_time'',
      print_ratio ''cpu_time'' ''gpu_time'']"

definition cell_multiply_100M :: "clock \<Rightarrow> stmt_fn list" where
  "cell_multiply_100M clk =
     [stamp clk ''s'',
      imul ''x_cpu'' 5,
      stamp clk ''e'',
      elapsed ''cpu_time'',
      print_var ''cpu_time'',
      stamp clk ''s'',
      imul ''x_gpu'' 5,
      synchronize,
      stamp clk ''e'',
      elapsed ''gpu_time'',
      print_var ''gpu_time'',
      print_ratio ''cpu_time'' ''gpu_time'']"

text \<open>
  The last code cell (under \<^verbatim>\<open># n = 1000,000,00\<close>) creates arrays of shape
  \<open>(1000,1000,100)\<close> and multiplies them in the same cell; its second CPU block has no
  \<^verbatim>\<open>cpu_time = e - s\<close> either.
\<close>

definition cell_create_multiply_100M :: "clock \<Rightarrow> stmt_fn list" where
  "cell_create_multiply_100M clk =
     [stamp clk ''s'',
      ones ''x_cpu'' [1000, 1000, 100],
      stamp clk ''e'',
      elapsed ''cpu_time'',
      print_var ''cpu_time'',
      stamp clk ''s'',
      ones ''x_gpu'' [1000, 1000, 100],
      synchronize,
      stamp clk ''e'',
      elapsed ''gpu_time'',
      print_var ''gpu_time'',
      print_ratio ''cpu_time'' ''gpu_time'',
      stamp clk ''s'',
      imul ''x_cpu'' 5,
      stamp clk ''e'',
      print_var ''cpu_time'',
      stamp clk ''s'',
      imul ''x_gpu'' 5,
      synchronize,
      stamp clk ''e'',
      elapsed ''gpu_time'',
      print_var ''gpu_time'',
      print_ratio ''cpu_time'' ''gpu_time'']"






section \<open>Nearest-neighbours demo: the index comparison cell\<close>

text \<open>
  The parameters cell of the notebook:
  \<^verbatim>\<open>
  n_samples = 2**17
  n_features = 40

  n_query = 2**13
  n_neighbors = 4
  \<close>
\<close>

definition n_samples :: int where
  "n_samples = 2 ^ 17"

definition n_query :: nat where
  "n_query = 2 ^ 13"

definition n_neighbors :: nat where
  "n_neighbors = 4"

text \<open>
  Python's \<open>xs[i]\<close> on a list: a negative index counts from the end, an index out of range
  raises. A \<open>bool\<close> used as an index is the integer 0 or 1.
\<close>

definition py_getitem :: "'a list \<Rightarrow> int \<Rightarrow> py_error + 'a" where
  "py_getitem xs i =
     (if 0 \<le> i \<and> i < int (length xs) then Inr (xs ! nat i)
      else if i < 0 \<and> - int (length xs) \<le> i then Inr (xs ! nat (int (length xs) + i))
      else Inl IndexError)"

definition int_of_bool :: "bool \<Rightarrow> int" where
  "int_of_bool b = (if b then 1 else 0)"

text \<open>
  \<open>xs != n\<close> for a Python list \<open>xs\<close> and an integer \<open>n\<close>: neither type compares itself to
  the other, so the objects are unequal whatever the list holds.
\<close>

definition list_ne_int :: "'a list \<Rightarrow> int \<Rightarrow> bool" where
  "list_ne_int xs n = True"

text \<open>
  \<^verbatim>\<open>
  sk_sorted = np.sort(I_sk, axis=1)
  cuml_sorted = np.sort(I_cuml.values, axis=1)

  diff = [list(map(lambda x, y: x - y, ii, jj)) for ii, jj in zip(sk_sorted, cuml_sorted)]

  passed = (len(diff[diff!=0]) / n_samples) < 1e-9
  print('compare knn: cuml vs sklearn indexes %s'%('equal'if passed else 'NOT equal'))
  \<close>
  The index arrays are lists of rows; \<open>np.sort(_, axis=1)\<close> sorts each row. The global
  \<open>n_samples\<close> that the cell reads is the parameter \<open>n\<close>. The cell returns the line it
  prints, or the exception it raises.
\<close>

definition row_diffs :: "int list list \<Rightarrow> int list list \<Rightarrow> int list list" where
  "row_diffs I_sk I_cuml =
     (let sk_sorted = map sort I_sk;
          cuml_sorted = map sort I_cuml
      in map (\<lambda>(ii, jj). map (\<lambda>(x, y). x - y) (zip ii jj)) (zip sk_sorted cuml_sorted))"

definition index_compare_cell :: "int list list \<Rightarrow> int list list \<Rightarrow> int \<Rightarrow> py_error + string" where
  "index_compare_cell I_sk I_cuml n =
     (let diff = row_diffs I_sk I_cuml
      in case py_getitem diff (int_of_bool (list_ne_int diff 0)) of
           Inl err \<Rightarrow> Inl err
         | Inr selected \<Rightarrow>
             if n = 0 then Inl ZeroDivisionError
             else
               let passed = (real (length selected) / real_of_int n < 1 / 10 ^ 9)
               in Inr (''compare knn: cuml vs sklearn indexes '' @
                        (if passed then ''equal'' else ''NOT equal'')))"

section \<open>Principal Component Analysis from Scratch.ipynb: the manual pipeline\<close>















section \<open>The code cells of the notebooks\<close>

text \<open>
  What the notebooks contain (which calls they make, in which order, what they define,
  raise, time and write) is a property of the notebooks' code itself. Each
  notebook is the list of its code cells, each cell the list of its statements, in
  Python's abstract syntax: constructor and field names follow Python's \<open>ast\<close> module,
  and the statement forms that could catch an exception or loop (\<open>Try\<close>, \<open>For\<close>, \<open>While\<close>)
  are part of the syntax although no cell uses them. Markdown cells, comments and recorded
  outputs are left out. A line that starts with \<open>%\<close> is an IPython magic.
\<close>

datatype binop = Add | Sub | Mult | Div | Mod | Pow

datatype cmpop = Lt | NotEq | Eq

datatype unaryop = USub

datatype expr =
    Name string
  | IntLit int
  | FloatLit string
  | StrLit string
  | BoolLit bool
  | NoneLit
  | UnaryOp unaryop expr
  | Attribute expr string
  | Call expr "expr list" "(string \<times> expr) list"
  | BinOp expr binop expr
  | Compare expr cmpop expr
  | Subscript expr expr
  | Slice "expr option" "expr option"
  | TupleE "expr list"
  | ListE "expr list"
  | DictE "(expr \<times> expr) list"
  | Lambda "string list" expr
  | ListComp expr expr expr
  | IfExp expr expr expr

datatype stmt =
    Import string "string option"
  | ImportFrom string string "string option"
  | Assign expr expr
  | AugAssign expr binop expr
  | Expr expr
  | If expr "stmt list" "stmt list"
  | Raise expr
  | FunctionDef string "string list" "stmt list"
  | Return expr
  | Try "stmt list" "stmt list list" "stmt list"
  | For expr expr "stmt list"
  | While expr "stmt list"
  | Magic string

type_synonym cell = "stmt list"
type_synonym notebook = "cell list"

text \<open>\<^verbatim>\<open>src/CuPy/Intro_to_CuPy.ipynb\<close>\<close>

definition Intro_to_CuPy :: notebook where
  \<open>Intro_to_CuPy =
    [[],
     [Import ''numpy'' (Some ''np''), Import ''cupy'' (Some ''cp''), Import ''time'' None],
     [Assign (Name ''s'') (Call (Attribute (Name ''time'') ''time'') [] []),
      Assign (Name ''x_cpu'')
        (Call (Attribute (Name ''np'') ''ones'')
           [TupleE [IntLit 1000, IntLit 1000, IntLit 100]] []),
      Assign (Name ''e'') (Call (Attribute (Name ''time'') ''time'') [] []),
      Assign (Name ''cpu_time'') (BinOp (Name ''e'') Sub (Name ''s'')),
      Expr (Call (Name ''print'') [Name ''cpu_time''] []),
      Assign (Name ''s'') (Call (Attribute (Name ''time'') ''time'') [] []),
      Assign (Name ''x_gpu'')
        (Call (Attribute (Name ''cp'') ''ones'')
           [TupleE [IntLit 1000, IntLit 1000, IntLit 100]] []),
      Expr
        (Call
           (Attribute
              (Attribute (Attribute (Attribute (Name ''cp'') ''cuda'') ''Stream'') ''null'')
              ''synchronize'') [] []),
      Assign (Name ''e'') (Call (Attribute (Name ''time'') ''time'') [] []),
      Assign (Name ''gpu_time'') (BinOp (Name ''e'') Sub (Name ''s'')),
      Expr (Call (Name ''print'') [Name ''gpu_time''] []),
      Expr (Call (Name ''print'') [BinOp (Name ''cpu_time'') Div (Name ''gpu_time'')] [])],
     [Assign (Name ''s'') (Call (Attribute (Name ''time'') ''time'') [] []),
      AugAssign (Name ''x_cpu'') Mult (IntLit 5),
      Assign (Name ''e'') (Call (Attribute (Name ''time'') ''time'') [] []),
      Assign (Name ''cpu_time'') (BinOp (Name ''e'') Sub (Name ''s'')),
      Expr (Call (Name ''print'') [Name ''cpu_time''] []),
      Assign (Name ''s'') (Call (Attribute (Name ''time'') ''time'') [] []),
      AugAssign (Name ''x_gpu'') Mult (IntLit 5),
      Expr
        (Call
           (Attribute
              (Attribute (Attribute (Attribute (Name ''cp'') ''cuda'') ''Stream'') ''null'')
              ''synchronize'') [] []),
      Assign (Name ''e'') (Call (Attribute (Name ''time'') ''time'') [] []),
      Assign (Name ''gpu_time'') (BinOp (Name ''e'') Sub (Name ''s'')),
      Expr (Call (Name ''print'') [Name ''gpu_time''] []),
      Expr (Call (Name ''print'') [BinOp (Name ''cpu_time'') Div (Name ''gpu_time'')] [])],
     [Assign (Name ''s'') (Call (Attribute (Name ''time'') ''time'') [] []),
      AugAssign (Name ''x_cpu'') Mult (IntLit 5),
      AugAssign (Name ''x_cpu'') Mult (Name ''x_cpu''),
      AugAssign (Name ''x_cpu'') Add (Name ''x_cpu''),
      Assign (Name ''e'') (Call (Attribute (Name ''time'') ''time'') [] []),
      Assign (Name ''cpu_time'') (BinOp (Name ''e'') Sub (Name ''s'')),
      Expr (Call (Name ''print'') [Name ''cpu_time''] []),
      Assign (Name ''s'') (Call (Attribute (Name ''time'') ''time'') [] []),
      AugAssign (Name ''x_gpu'') Mult (IntLit 5),
      AugAssign (Name ''x_gpu'') Mult (Name ''x_gpu''),
      AugAssign (Name ''x_gpu'') Add (Name ''x_gpu''),
      Expr
        (Call
           (Attribute
              (Attribute (Attribute (Attribute (Name ''cp'') ''cuda'') ''Stream'') ''null'')
              ''synchronize'') [] []),
      Assign (Name ''e'') (Call (Attribute (Name ''time'') ''time'') [] []),
      Assign (Name ''gpu_time'') (BinOp (Name ''e'') Sub (Name ''s'')),
      Expr (Call (Name ''print'') [Name ''gpu_time''] []),
      Expr (Call (Name ''print'') [BinOp (Name ''cpu_time'') Div (Name ''gpu_time'')] [])],
     [Assign (Name ''s'') (Call (Attribute (Name ''time'') ''time'') [] []),
      Assign (Name ''x_cpu'')
        (Call (Attribute (Name ''np'') ''ones'') [TupleE [IntLit 100, IntLit 100, IntLit 100]]
           []),
      Assign (Name ''e'') (Call (Attribute (Name ''time'') ''time'') [] []),
      Assign (Name ''cpu_time'') (BinOp (Name ''e'') Sub (Name ''s'')),
      Expr (Call (Name ''print'') [Name ''cpu_time''] []),
      Assign (Name ''s'') (Call (Attribute (Name ''time'') ''time'') [] []),
      Assign (Name ''x_gpu'')
        (Call (Attribute (Name ''cp'') ''ones'') [TupleE [IntLit 100, IntLit 100, IntLit 100]]
           []),
      Expr
        (Call
           (Attribute
              (Attribute (Attribute (Attribute (Name ''cp'') ''cuda'') ''Stream'') ''null'')
              ''synchronize'') [] []),
      Assign (Name ''e'') (Call (Attribute (Name ''time'') ''time'') [] []),
      Assign (Name ''gpu_time'') (BinOp (Name ''e'') Sub (Name ''s'')),
      Expr (Call (Name ''print'') [Name ''gpu_time''] []),
      Expr (Call (Name ''print'') [BinOp (Name ''cpu_time'') Div (Name ''gpu_time'')] [])],
     [Assign (Name ''s'') (Call (Attribute (Name ''time'') ''time'') [] []),
      AugAssign (Name ''x_cpu'') Mult (IntLit 5),
      Assign (Name ''e'') (Call (Attribute (Name ''time'') ''time'') [] []),
      Assign (Name ''cpu_time'') (BinOp (Name ''e'') Sub (Name ''s'')),
      Expr (Call (Name ''print'') [Name ''cpu_time''] []),
      Assign (Name ''s'') (Call (Attribute (Name ''time'') ''time'') [] []),
      AugAssign (Name ''x_gpu'') Mult (IntLit 5),
      Expr
        (Call
           (Attribute
              (Attribute (Attribute (Attribute (Name ''cp'') ''cuda'') ''Stream'') ''null'')
              ''synchronize'') [] []),
      Assign (Name ''e'') (Call (Attribute (Name ''time'') ''time'') [] []),
      Assign (Name ''gpu_time'') (BinOp (Name ''e'') Sub (Name ''s'')),
      Expr (Call (Name ''print'') [Name ''gpu_time''] []),
      Expr (Call (Name ''print'') [BinOp (Name ''cpu_time'') Div (Name ''gpu_time'')] [])],
     [Assign (Name ''s'') (Call (Attribute (Name ''time'') ''time'') [] []),
      Assign (Name ''x_cpu'')
        (Call (Attribute (Name ''np'') ''ones'')
           [TupleE [IntLit 1000, IntLit 100, IntLit 100]] []),
      Assign (Name ''e'') (Call (Attribute (Name ''time'') ''time'') [] []),
      Assign (Name ''cpu_time'') (BinOp (Name ''e'') Sub (Name ''s'')),
      Expr (Call (Name ''print'') [Name ''cpu_time''] []),
      Assign (Name ''s'') (Call (Attribute (Name ''time'') ''time'') [] []),
      Assign (Name ''x_gpu'')
        (Call (Attribute (Name ''cp'') ''ones'')
           [TupleE [IntLit 1000, IntLit 100, IntLit 100]] []),
      Expr
        (Call
           (Attribute
              (Attribute (Attribute (Attribute (Name ''cp'') ''cuda'') ''Stream'') ''null'')
              ''synchronize'') [] []),
      Assign (Name ''e'') (Call (Attribute (Name ''time'') ''time'') [] []),
      Assign (Name ''gpu_time'') (BinOp (Name ''e'') Sub (Name ''s'')),
      Expr (Call (Name ''print'') [Name ''gpu_time''] []),
      Expr (Call (Name ''print'') [BinOp (Name ''cpu_time'') Div (Name ''gpu_time'')] [])],
     [Assign (Name ''s'') (Call (Attribute (Name ''time'') ''time'') [] []),
      AugAssign (Name ''x_cpu'') Mult (IntLit 5),
      Assign (Name ''e'') (Call (Attribute (Name ''time'') ''time'') [] []),
      Expr (Call (Name ''print'') [Name ''cpu_time''] []),
      Assign (Name ''s'') (Call (Attribute (Name ''time'') ''time'') [] []),
      AugAssign (Name ''x_gpu'') Mult (IntLit 5),
      Expr
        (Call
           (Attribute
              (Attribute (Attribute (Attribute (Name ''cp'') ''cuda'') ''Stream'') ''null'')
              ''synchronize'') [] []),
      Assign (Name ''e'') (Call (Attribute (Name ''time'') ''time'') [] []),
      Assign (Name ''gpu_time'') (BinOp (Name ''e'') Sub (Name ''s'')),
      Expr (Call (Name ''print'') [Name ''gpu_time''] []),
      Expr (Call (Name ''print'') [BinOp (Name ''cpu_time'') Div (Name ''gpu_time'')] [])],
     [Assign (Name ''s'') (Call (Attribute (Name ''time'') ''time'') [] []),
      Assign (Name ''x_cpu'')
        (Call (Attribute (Name ''np'') ''ones'')
           [TupleE [IntLit 1000, IntLit 1000, IntLit 100]] []),
      Assign (Name ''e'') (Call (Attribute (Name ''time'') ''time'') [] []),
      Assign (Name ''cpu_time'') (BinOp (Name ''e'') Sub (Name ''s'')),
      Expr (Call (Name ''print'') [Name ''cpu_time''] []),
      Assign (Name ''s'') (Call (Attribute (Name ''time'') ''time'') [] []),
      Assign (Name ''x_gpu'')
        (Call (Attribute (Name ''cp'') ''ones'')
           [TupleE [IntLit 1000, IntLit 1000, IntLit 100]] []),
      Expr
        (Call
           (Attribute
              (Attribute (Attribute (Attribute (Name ''cp'') ''cuda'') ''Stream'') ''null'')
              ''synchronize'') [] []),
      Assign (Name ''e'') (Call (Attribute (Name ''time'') ''time'') [] []),
      Assign (Name ''gpu_time'') (BinOp (Name ''e'') Sub (Name ''s'')),
      Expr (Call (Name ''print'') [Name ''gpu_time''] []),
      Expr (Call (Name ''print'') [BinOp (Name ''cpu_time'') Div (Name ''gpu_time'')] []),
      Assign (Name ''s'') (Call (Attribute (Name ''time'') ''time'') [] []),
      AugAssign (Name ''x_cpu'') Mult (IntLit 5),
      Assign (Name ''e'') (Call (Attribute (Name ''time'') ''time'') [] []),
      Expr (Call (Name ''print'') [Name ''cpu_time''] []),
      Assign (Name ''s'') (Call (Attribute (Name ''time'') ''time'') [] []),
      AugAssign (Name ''x_gpu'') Mult (IntLit 5),
      Expr
        (Call
           (Attribute
              (Attribute (Attribute (Attribute (Name ''cp'') ''cuda'') ''Stream'') ''null'')
              ''synchronize'') [] []),
      Assign (Name ''e'') (Call (Attribute (Name ''time'') ''time'') [] []),
      Assign (Name ''gpu_time'') (BinOp (Name ''e'') Sub (Name ''s'')),
      Expr (Call (Name ''print'') [Name ''gpu_time''] []),
      Expr (Call (Name ''print'') [BinOp (Name ''cpu_time'') Div (Name ''gpu_time'')] [])],
     []]\<close>

text \<open>\<^verbatim>\<open>src/CuPy/Dask_and__array_function__protocol.ipynb\<close>\<close>

definition Dask_array_function :: notebook where
  \<open>Dask_array_function =
    [[Import ''numpy'' (Some ''np''),
      Import ''dask.array'' (Some ''da''),
      Assign (Name ''x'')
        (Call (Attribute (Attribute (Name ''np'') ''random'') ''random'')
           [TupleE [IntLit 5000, IntLit 1000]] []),
      Assign (Name ''d'')
        (Call (Attribute (Name ''da'') ''from_array'') [Name ''x'']
           [(''chunks'', TupleE [IntLit 1000, IntLit 1000])]),
      Assign (TupleE [Name ''u'', Name ''s'', Name ''v''])
        (Call (Attribute (Attribute (Name ''np'') ''linalg'') ''svd'') [Name ''d''] [])],
     [Import ''numpy'' (Some ''np''),
      Import ''cupy'' None,
      Import ''dask.array'' (Some ''da''),
      Assign (Name ''x'')
        (Call (Attribute (Attribute (Name ''cupy'') ''random'') ''random'')
           [TupleE [IntLit 5000, IntLit 1000]] []),
      Assign (Name ''d'')
        (Call (Attribute (Name ''da'') ''from_array'') [Name ''x'']
           [(''chunks'', TupleE [IntLit 1000, IntLit 1000])]),
      Assign (TupleE [Name ''u'', Name ''s'', Name ''v''])
        (Call (Attribute (Attribute (Name ''np'') ''linalg'') ''svd'') [Name ''d''] [])],
     [Import ''numpy'' (Some ''np''),
      Import ''cupy'' None,
      Import ''dask.array'' (Some ''da''),
      Assign (Name ''x'')
        (Call (Attribute (Attribute (Name ''np'') ''random'') ''random'')
           [TupleE [IntLit 10000, IntLit 1000]] []),
      Assign (Name ''y'') (Call (Attribute (Name ''cupy'') ''array'') [Name ''x''] []),
      Assign (Name ''dx'')
        (Call (Attribute (Name ''da'') ''from_array'') [Name ''x'']
           [(''chunks'', TupleE [IntLit 5000, IntLit 1000])]),
      Assign (Name ''dy'')
        (Call (Attribute (Name ''da'') ''from_array'') [Name ''y'']
           [(''chunks'', TupleE [IntLit 5000, IntLit 1000]), (''asarray'', BoolLit False)])],
     [Magic ''%%time'',
      Assign (TupleE [Name ''u'', Name ''s'', Name ''v''])
        (Call (Attribute (Attribute (Name ''np'') ''linalg'') ''svd'') [Name ''x''] [])],
     [Import ''dask'' None,
      Assign (TupleE [Name ''u'', Name ''s'', Name ''v''])
        (Call (Attribute (Attribute (Name ''da'') ''linalg'') ''svd'') [Name ''dx''] []),
      Assign (TupleE [Name ''u'', Name ''s'', Name ''v''])
        (Call (Attribute (Name ''dask'') ''compute'') [Name ''u'', Name ''s'', Name ''v''] [])],
     [Magic ''%%time'',
      Assign (TupleE [Name ''u'', Name ''s'', Name ''v''])
        (Call (Attribute (Attribute (Name ''np'') ''linalg'') ''svd'') [Name ''dx''] []),
      Assign (TupleE [Name ''u'', Name ''s'', Name ''v''])
        (Call (Attribute (Name ''dask'') ''compute'') [Name ''u'', Name ''s'', Name ''v''] [])],
     [Magic ''%%time'',
      Assign (TupleE [Name ''u'', Name ''s'', Name ''v''])
        (Call (Attribute (Attribute (Name ''np'') ''linalg'') ''svd'') [Name ''y''] [])],
     [Magic ''%%time'',
      Assign (TupleE [Name ''u'', Name ''s'', Name ''v''])
        (Call (Attribute (Attribute (Name ''np'') ''linalg'') ''svd'') [Name ''dy''] []),
      Assign (TupleE [Name ''u'', Name ''s'', Name ''v''])
        (Call (Attribute (Name ''dask'') ''compute'') [Name ''u'', Name ''s'', Name ''v''] [])],
     [Import ''numpy'' (Some ''np''),
      Import ''matplotlib.pyplot'' (Some ''plt''),
      ImportFrom ''sklearn.linear_model'' ''LinearRegression'' None,
      Assign (Name ''N'') (IntLit 1000),
      Assign (Name ''x'')
        (BinOp (Name ''N'') Mult
           (Call (Attribute (Attribute (Name ''np'') ''random'') ''random'')
              [TupleE [IntLit 40000, IntLit 1]] [])),
      Assign (Name ''y'')
        (BinOp (BinOp (BinOp (FloatLit ''0.5'') Mult (Name ''x'')) Add (FloatLit ''1.0'')) Add
           (Call (Attribute (Attribute (Name ''np'') ''random'') ''normal'') []
              [(''size'', Attribute (Name ''x'') ''shape'')])),
      Assign (Name ''est'') (Call (Name ''LinearRegression'') [] [])],
     [Magic ''%%time'',
      Expr (Call (Attribute (Name ''est'') ''fit'') [Name ''x'', Name ''y''] [])],
     [Magic ''%%time'',
      Assign (Name ''x_new'')
        (Call (Attribute (Name ''np'') ''linspace'') [IntLit 0, Name ''N'', IntLit 100] []),
      Assign (Name ''y_new'')
        (Call (Attribute (Name ''est'') ''predict'')
           [Subscript (Name ''x_new'')
              (TupleE [Slice None None, Attribute (Name ''np'') ''newaxis''])] [])],
     [Expr
        (Call (Attribute (Name ''plt'') ''figure'') []
           [(''figsize'', TupleE [IntLit 4, IntLit 3])]),
      Assign (Name ''ax'') (Call (Attribute (Name ''plt'') ''axes'') [] []),
      Expr
        (Call (Attribute (Name ''ax'') ''scatter'') [Name ''x'', Name ''y'']
           [(''linewidth'', IntLit 3)]),
      Expr
        (Call (Attribute (Name ''ax'') ''plot'') [Name ''x_new'', Name ''y_new'']
           [(''color'', StrLit ''black'')]),
      Expr
        (Call (Attribute (Name ''ax'') ''set_facecolor'')
           [TupleE [FloatLit ''1.0'', FloatLit ''1.0'', FloatLit ''0.42'']] []),
      Expr (Call (Attribute (Name ''ax'') ''set_xlabel'') [StrLit ''x''] []),
      Expr (Call (Attribute (Name ''ax'') ''set_ylabel'') [StrLit ''y''] []),
      Expr (Call (Attribute (Name ''ax'') ''axis'') [StrLit ''tight''] []),
      Expr (Call (Attribute (Name ''plt'') ''show'') [] [])],
     [Import ''numpy'' (Some ''np''),
      ImportFrom ''dask_glm.estimators'' ''LinearRegression'' None,
      Import ''matplotlib.pyplot'' (Some ''plt''),
      Assign (Name ''N'') (IntLit 1000),
      Assign (Name ''x'')
        (BinOp (Name ''N'') Mult
           (Call (Attribute (Attribute (Name ''np'') ''random'') ''random'')
              [TupleE [IntLit 40000, IntLit 1]] [])),
      Assign (Name ''y'')
        (BinOp (BinOp (BinOp (FloatLit ''0.5'') Mult (Name ''x'')) Add (FloatLit ''1.0'')) Add
           (Call (Attribute (Attribute (Name ''np'') ''random'') ''normal'') []
              [(''size'', Attribute (Name ''x'') ''shape'')])),
      Assign (Name ''est'')
        (Call (Name ''LinearRegression'') [] [(''solver'', StrLit ''lbfgs'')])],
     [Magic ''%%time'',
      Expr (Call (Attribute (Name ''est'') ''fit'') [Name ''x'', Name ''y''] [])],
     [Magic ''%%time'',
      Assign (Name ''x_new'')
        (Call (Attribute (Name ''np'') ''linspace'') [IntLit 0, Name ''N'', IntLit 100] []),
      Assign (Name ''y_new'')
        (Call (Attribute (Name ''est'') ''predict'')
           [Subscript (Name ''x_new'')
              (TupleE [Slice None None, Attribute (Name ''np'') ''newaxis''])] [])],
     []]\<close>

text \<open>\<^verbatim>\<open>src/Notebooks/kmeans_demo.ipynb\<close>, the k-means notebook (lines 1-313).\<close>

definition kmeans_demo :: notebook where
  \<open>kmeans_demo =
    [[Import ''cudf'' None,
      Import ''cupy'' None,
      Import ''matplotlib.pyplot'' (Some ''plt''),
      ImportFrom ''cuml.cluster'' ''KMeans'' (Some ''cuKMeans''),
      ImportFrom ''cuml.datasets'' ''make_blobs'' None,
      ImportFrom ''sklearn.cluster'' ''KMeans'' (Some ''skKMeans''),
      ImportFrom ''sklearn.metrics'' ''adjusted_rand_score'' None,
      Magic ''%matplotlib inline''],
     [Assign (Name ''n_samples'') (IntLit 100000),
      Assign (Name ''n_features'') (IntLit 2),
      Assign (Name ''n_clusters'') (IntLit 5),
      Assign (Name ''random_state'') (IntLit 0)],
     [Assign (TupleE [Name ''device_data'', Name ''device_labels''])
        (Call (Name ''make_blobs'') []
           [(''n_samples'', Name ''n_samples''),
            (''n_features'', Name ''n_features''),
            (''centers'', Name ''n_clusters''),
            (''random_state'', Name ''random_state''),
            (''cluster_std'', FloatLit ''0.1'')]),
      Assign (Name ''device_data'')
        (Call (Attribute (Name ''cudf'') ''DataFrame'') [Name ''device_data''] []),
      Assign (Name ''device_labels'')
        (Call (Attribute (Name ''cudf'') ''Series'') [Name ''device_labels''] [])],
     [Assign (Name ''host_data'')
        (Call (Attribute (Name ''device_data'') ''to_pandas'') [] []),
      Assign (Name ''host_labels'')
        (Call (Attribute (Name ''device_labels'') ''to_pandas'') [] [])],
     [Magic ''%%time'',
      Assign (Name ''kmeans_sk'')
        (Call (Name ''skKMeans'') []
           [(''init'', StrLit ''k-means++''),
            (''n_clusters'', Name ''n_clusters''),
            (''random_state'', Name ''random_state'')]),
      Expr (Call (Attribute (Name ''kmeans_sk'') ''fit'') [Name ''host_data''] [])],
     [Magic ''%%time'',
      Assign (Name ''kmeans_cuml'')
        (Call (Name ''cuKMeans'') []
           [(''init'', StrLit ''k-means||''),
            (''n_clusters'', Name ''n_clusters''),
            (''oversampling_factor'', IntLit 40),
            (''random_state'', Name ''random_state'')]),
      Expr (Call (Attribute (Name ''kmeans_cuml'') ''fit'') [Name ''device_data''] [])],
     [Assign (Name ''fig'')
        (Call (Attribute (Name ''plt'') ''figure'') []
           [(''figsize'', TupleE [IntLit 16, IntLit 10])]),
      Expr
        (Call (Attribute (Name ''plt'') ''scatter'')
           [Subscript (Attribute (Name ''host_data'') ''iloc'')
              (TupleE [Slice None None, IntLit 0]),
            Subscript (Attribute (Name ''host_data'') ''iloc'')
              (TupleE [Slice None None, IntLit 1])]
           [(''c'', Name ''host_labels''),
            (''s'', IntLit 50),
            (''cmap'', StrLit ''viridis'')]),
      Assign (Name ''centers_sk'') (Attribute (Name ''kmeans_sk'') ''cluster_centers_''),
      Expr
        (Call (Attribute (Name ''plt'') ''scatter'')
           [Subscript (Name ''centers_sk'') (TupleE [Slice None None, IntLit 0]),
            Subscript (Name ''centers_sk'') (TupleE [Slice None None, IntLit 1])]
           [(''c'', StrLit ''blue''), (''s'', IntLit 100), (''alpha'', FloatLit ''.5'')]),
      Assign (Name ''centers_cuml'') (Attribute (Name ''kmeans_cuml'') ''cluster_centers_''),
      Expr
        (Call (Attribute (Name ''plt'') ''scatter'')
           [Call (Attribute (Name ''cupy'') ''asnumpy'')
              [Attribute (Subscript (Name ''centers_cuml'') (IntLit 0)) ''values''] [],
            Call (Attribute (Name ''cupy'') ''asnumpy'')
              [Attribute (Subscript (Name ''centers_cuml'') (IntLit 1)) ''values''] []]
           [(''facecolors'', StrLit ''none''),
            (''edgecolors'', StrLit ''red''),
            (''s'', IntLit 100)]),
      Expr
        (Call (Attribute (Name ''plt'') ''title'')
           [StrLit ''cuml and sklearn kmeans clustering''] []),
      Expr (Call (Attribute (Name ''plt'') ''show'') [] [])],
     [Magic ''%%time'',
      Assign (Name ''cuml_score'')
        (Call (Name ''adjusted_rand_score'')
           [Name ''host_labels'',
            Call (Attribute (Attribute (Name ''kmeans_cuml'') ''labels_'') ''to_array'') []
              []] []),
      Assign (Name ''sk_score'')
        (Call (Name ''adjusted_rand_score'')
           [Name ''host_labels'', Attribute (Name ''kmeans_sk'') ''labels_''] [])],
     [Assign (Name ''threshold'') (FloatLit ''1e-4''),
      Assign (Name ''passed'')
        (Compare (BinOp (Name ''cuml_score'') Sub (Name ''sk_score'')) Lt
           (Name ''threshold'')),
      Expr
        (Call (Name ''print'')
           [BinOp (StrLit ''compare kmeans: cuml vs sklearn labels_ are '') Add
              (IfExp (Name ''passed'') (StrLit ''equal'') (StrLit ''NOT equal''))] [])]]\<close>

text \<open>\<^verbatim>\<open>src/Notebooks/kmeans_demo.ipynb\<close>, the forest inference notebook (lines 314-864).\<close>

definition forest_inference_demo :: notebook where
  \<open>forest_inference_demo =
    [[Import ''numpy'' (Some ''np''),
      Import ''os'' None,
      ImportFrom ''cuml.common.import_utils'' ''has_xgboost'' None,
      ImportFrom ''cuml'' ''ForestInference'' None,
      ImportFrom ''sklearn.datasets'' ''make_classification'' None,
      ImportFrom ''sklearn.metrics'' ''accuracy_score'' None,
      ImportFrom ''sklearn.model_selection'' ''train_test_split'' None],
     [If (Call (Name ''has_xgboost'') [] []) [Import ''xgboost'' (Some ''xgb'')]
        [Raise
           (Call (Name ''ImportError'')
              [StrLit
                 ''Please install xgboost using the conda package, Use conda install -c conda-forge xgboost command to install xgboost'']
              [])]],
     [FunctionDef ''train_xgboost_model''
        [''X_train'', ''y_train'', ''num_rounds'', ''model_path'']
        [Assign (Name ''params'')
           (DictE
              [(StrLit ''silent'', IntLit 1),
               (StrLit ''eval_metric'', StrLit ''error''),
               (StrLit ''objective'', StrLit ''binary:logistic''),
               (StrLit ''max_depth'', IntLit 25)]),
         Assign (Name ''dtrain'')
           (Call (Attribute (Name ''xgb'') ''DMatrix'') [Name ''X_train'']
              [(''label'', Name ''y_train'')]),
         Assign (Name ''bst'')
           (Call (Attribute (Name ''xgb'') ''train'')
              [Name ''params'', Name ''dtrain'', Name ''num_rounds''] []),
         Expr (Call (Attribute (Name ''bst'') ''save_model'') [Name ''model_path''] []),
         Return (Name ''bst'')]],
     [FunctionDef ''predict_xgboost_model''
        [''X_validation'', ''y_validation'', ''xgb_model'']
        [Assign (Name ''dvalidation'')
           (Call (Attribute (Name ''xgb'') ''DMatrix'') [Name ''X_validation'']
              [(''label'', Name ''y_validation'')]),
         Assign (Name ''xgb_preds'')
           (Call (Attribute (Name ''xgb_model'') ''predict'') [Name ''dvalidation''] []),
         Assign (Name ''xgb_preds'')
           (Call (Attribute (Name ''np'') ''around'') [Name ''xgb_preds''] []),
         Return (Name ''xgb_preds'')]],
     [Assign (Name ''n_rows'') (IntLit 10000),
      Assign (Name ''n_columns'') (IntLit 100),
      Assign (Name ''n_categories'') (IntLit 2),
      Assign (Name ''random_state'')
        (Call (Attribute (Attribute (Name ''np'') ''random'') ''RandomState'') [IntLit 43210]
           []),
      Assign (Name ''model_path'') (StrLit ''xgb.model''),
      Assign (Name ''num_rounds'') (IntLit 15)],
     [Assign (TupleE [Name ''X'', Name ''y''])
        (Call (Name ''make_classification'') []
           [(''n_samples'', Name ''n_rows''),
            (''n_features'', Name ''n_columns''),
            (''n_informative'',
             Call (Name ''int'') [BinOp (Name ''n_columns'') Div (IntLit 5)] []),
            (''n_classes'', Name ''n_categories''),
            (''random_state'', Name ''random_state'')]),
      Assign (Name ''train_size'') (FloatLit ''0.8''),
      Assign (Name ''X'')
        (Call (Attribute (Name ''X'') ''astype'') [Attribute (Name ''np'') ''float32''] []),
      Assign (Name ''y'')
        (Call (Attribute (Name ''y'') ''astype'') [Attribute (Name ''np'') ''float32''] []),
      Assign
        (TupleE
           [Name ''X_train'', Name ''X_validation'', Name ''y_train'', Name ''y_validation''])
        (Call (Name ''train_test_split'') [Name ''X'', Name ''y'']
           [(''train_size'', Name ''train_size'')])],
     [Assign (Name ''xgboost_model'')
        (Call (Name ''train_xgboost_model'')
           [Name ''X_train'', Name ''y_train'', Name ''num_rounds'', Name ''model_path''] [])],
     [Magic ''%%time'',
      Assign (Name ''trained_model_preds'')
        (Call (Name ''predict_xgboost_model'')
           [Name ''X_validation'', Name ''y_validation'', Name ''xgboost_model''] [])],
     [Assign (Name ''fm'')
        (Call (Attribute (Name ''ForestInference'') ''load'') []
           [(''filename'', Name ''model_path''),
            (''algo'', StrLit ''BATCH_TREE_REORG''),
            (''output_class'', BoolLit True),
            (''threshold'', FloatLit ''0.50''),
            (''model_type'', StrLit ''xgboost'')])],
     [Magic ''%%time'',
      Assign (Name ''fil_preds'')
        (Call (Attribute (Name ''fm'') ''predict'') [Name ''X_validation''] [])],
     [Expr
        (Call (Name ''print'')
           [StrLit ''The shape of predictions obtained from xgboost : '',
            Attribute (Name ''trained_model_preds'') ''shape''] []),
      Expr
        (Call (Name ''print'')
           [StrLit ''The shape of predictions obtained from FIL : '',
            Attribute (Name ''fil_preds'') ''shape''] []),
      Expr
        (Call (Name ''print'')
           [StrLit ''Are the predictions for xgboost and FIL the same : '',
            Call
              (Attribute (Compare (Name ''trained_model_preds'') Eq (Name ''fil_preds''))
                 ''all'') [] []] [])],
     []]\<close>

text \<open>\<^verbatim>\<open>src/unnamed/part_000\<close>, the nearest-neighbours notebook.\<close>

definition nearest_neighbors_demo :: notebook where
  \<open>nearest_neighbors_demo =
    [[Import ''cudf'' None,
      Import ''numpy'' (Some ''np''),
      ImportFrom ''cuml.datasets'' ''make_blobs'' None,
      ImportFrom ''cuml.neighbors'' ''NearestNeighbors'' (Some ''cuNearestNeighbors''),
      ImportFrom ''sklearn.neighbors'' ''NearestNeighbors'' (Some ''skNearestNeighbors'')],
     [Assign (Name ''n_samples'') (BinOp (IntLit 2) Pow (IntLit 17)),
      Assign (Name ''n_features'') (IntLit 40),
      Assign (Name ''n_query'') (BinOp (IntLit 2) Pow (IntLit 13)),
      Assign (Name ''n_neighbors'') (IntLit 4),
      Assign (Name ''random_state'') (IntLit 0)],
     [Magic ''%%time'',
      Assign (TupleE [Name ''device_data'', Name ''_''])
        (Call (Name ''make_blobs'') []
           [(''n_samples'', Name ''n_samples''),
            (''n_features'', Name ''n_features''),
            (''centers'', IntLit 5),
            (''random_state'', Name ''random_state'')]),
      Assign (Name ''device_data'')
        (Call (Attribute (Name ''cudf'') ''DataFrame'') [Name ''device_data''] [])],
     [Assign (Name ''host_data'')
        (Call (Attribute (Name ''device_data'') ''to_pandas'') [] [])],
     [Magic ''%%time'',
      Assign (Name ''knn_sk'')
        (Call (Name ''skNearestNeighbors'') []
           [(''algorithm'', StrLit ''brute''), (''n_jobs'', UnaryOp USub (IntLit 1))]),
      Expr (Call (Attribute (Name ''knn_sk'') ''fit'') [Name ''host_data''] [])],
     [Magic ''%%time'',
      Assign (TupleE [Name ''D_sk'', Name ''I_sk''])
        (Call (Attribute (Name ''knn_sk'') ''kneighbors'')
           [Subscript (Name ''host_data'') (Slice None (Some (Name ''n_query''))),
            Name ''n_neighbors''] [])],
     [Magic ''%%time'',
      Assign (Name ''knn_cuml'') (Call (Name ''cuNearestNeighbors'') [] []),
      Expr (Call (Attribute (Name ''knn_cuml'') ''fit'') [Name ''device_data''] [])],
     [Magic ''%%time'',
      Assign (TupleE [Name ''D_cuml'', Name ''I_cuml''])
        (Call (Attribute (Name ''knn_cuml'') ''kneighbors'')
           [Subscript (Name ''device_data'') (Slice None (Some (Name ''n_query''))),
            Name ''n_neighbors''] [])],
     [Expr (Name ''D_sk'')],
     [Expr (Name ''D_cuml'')],
     [Assign (Name ''passed'')
        (Call (Attribute (Name ''np'') ''allclose'')
           [Name ''D_sk'', Attribute (Name ''D_cuml'') ''values'']
           [(''atol'', FloatLit ''1e-3'')]),
      Expr
        (Call (Name ''print'')
           [BinOp (StrLit ''compare knn: cuml vs sklearn distances %s'') Mod
              (IfExp (Name ''passed'') (StrLit ''equal'') (StrLit ''NOT equal''))] [])],
     [Expr (Name ''I_sk'')],
     [Expr (Name ''I_cuml'')],
     [Assign (Name ''sk_sorted'')
        (Call (Attribute (Name ''np'') ''sort'') [Name ''I_sk''] [(''axis'', IntLit 1)]),
      Assign (Name ''cuml_sorted'')
        (Call (Attribute (Name ''np'') ''sort'') [Attribute (Name ''I_cuml'') ''values'']
           [(''axis'', IntLit 1)]),
      Assign (Name ''diff'')
        (ListComp
           (Call (Name ''list'')
              [Call (Name ''map'')
                 [Lambda [''x'', ''y''] (BinOp (Name ''x'') Sub (Name ''y'')),
                  Name ''ii'',
                  Name ''jj''] []] []) (TupleE [Name ''ii'', Name ''jj''])
           (Call (Name ''zip'') [Name ''sk_sorted'', Name ''cuml_sorted''] [])),
      Assign (Name ''passed'')
        (Compare
           (BinOp
              (Call (Name ''len'')
                 [Subscript (Name ''diff'') (Compare (Name ''diff'') NotEq (IntLit 0))] [])
              Div (Name ''n_samples'')) Lt (FloatLit ''1e-9'')),
      Expr
        (Call (Name ''print'')
           [BinOp (StrLit ''compare knn: cuml vs sklearn indexes %s'') Mod
              (IfExp (Name ''passed'') (StrLit ''equal'') (StrLit ''NOT equal''))] [])]]\<close>

text \<open>\<^verbatim>\<open>src/unnamed/part_001\<close>, the feature selection notebook.\<close>

definition feature_selection :: notebook where
  \<open>feature_selection =
    [[ImportFrom ''pandas'' ''read_csv'' None,
      ImportFrom ''numpy'' ''set_printoptions'' None,
      ImportFrom ''sklearn.feature_selection'' ''SelectKBest'' None,
      ImportFrom ''sklearn.feature_selection'' ''f_classif'' None],
     [Assign (Name ''filename'') (StrLit ''pima-indians-diabetes.csv''),
      Assign (Name ''names'')
        (ListE
           [StrLit ''preg'',
            StrLit ''plas'',
            StrLit ''pres'',
            StrLit ''skin'',
            StrLit ''test'',
            StrLit ''mass'',
            StrLit ''pedi'',
            StrLit ''age'',
            StrLit ''class'']),
      Assign (Name ''dataframe'')
        (Call (Name ''read_csv'') [Name ''filename''] [(''names'', Name ''names'')])],
     [Assign (Name ''array'') (Attribute (Name ''dataframe'') ''values''),
      Assign (Name ''X'')
        (Subscript (Name ''array'')
           (TupleE [Slice None None, Slice (Some (IntLit 0)) (Some (IntLit 8))])),
      Assign (Name ''Y'') (Subscript (Name ''array'') (TupleE [Slice None None, IntLit 8]))],
     [Assign (Name ''test'')
        (Call (Name ''SelectKBest'') []
           [(''score_func'', Name ''f_classif''), (''k'', IntLit 4)]),
      Assign (Name ''fit'')
        (Call (Attribute (Name ''test'') ''fit'') [Name ''X'', Name ''Y''] []),
      Expr (Call (Name ''set_printoptions'') [] [(''precision'', IntLit 3)]),
      Expr (Call (Name ''print'') [Attribute (Name ''fit'') ''scores_''] []),
      Assign (Name ''features'')
        (Call (Attribute (Name ''fit'') ''transform'') [Name ''X''] []),
      Expr
        (Call (Name ''print'')
           [Subscript (Name ''features'')
              (TupleE [Slice (Some (IntLit 0)) (Some (IntLit 5)), Slice None None])] [])],
     [ImportFrom ''pandas'' ''read_csv'' None,
      ImportFrom ''sklearn.feature_selection'' ''RFE'' None,
      ImportFrom ''sklearn.linear_model'' ''LogisticRegression'' None],
     [Assign (Name ''names'')
        (ListE
           [StrLit ''preg'',
            StrLit ''plas'',
            StrLit ''pres'',
            StrLit ''skin'',
            StrLit ''test'',
            StrLit ''mass'',
            StrLit ''pedi'',
            StrLit ''age'',
            StrLit ''class'']),
      Assign (Name ''dataframe'')
        (Call (Name ''read_csv'') [Name ''filename''] [(''names'', Name ''names'')]),
      Assign (Name ''array'') (Attribute (Name ''dataframe'') ''values''),
      Assign (Name ''X'')
        (Subscript (Name ''array'')
           (TupleE [Slice None None, Slice (Some (IntLit 0)) (Some (IntLit 8))])),
      Assign (Name ''Y'') (Subscript (Name ''array'') (TupleE [Slice None None, IntLit 8]))],
     [Assign (Name ''model'')
        (Call (Name ''LogisticRegression'') [] [(''solver'', StrLit ''lbfgs'')]),
      Assign (Name ''rfe'')
        (Call (Name ''RFE'') [Name ''model'']
           [(''n_features_to_select'', IntLit 3), (''step'', IntLit 1)]),
      Assign (Name ''fit'')
        (Call (Attribute (Name ''rfe'') ''fit'') [Name ''X'', Name ''Y''] []),
      Expr
        (Call (Name ''print'')
           [BinOp (StrLit ''Num Features: %d'') Mod
              (Attribute (Name ''fit'') ''n_features_'')] []),
      Expr
        (Call (Name ''print'')
           [BinOp (StrLit ''Selected Features: %s'') Mod
              (Attribute (Name ''fit'') ''support_'')] []),
      Expr
        (Call (Name ''print'')
           [BinOp (StrLit ''Feature Ranking: %s'') Mod
              (Attribute (Name ''fit'') ''ranking_'')] [])],
     [Import ''numpy'' None,
      ImportFrom ''pandas'' ''read_csv'' None,
      ImportFrom ''sklearn.decomposition'' ''PCA'' None],
     [Assign (Name ''names'')
        (ListE
           [StrLit ''preg'',
            StrLit ''plas'',
            StrLit ''pres'',
            StrLit ''skin'',
            StrLit ''test'',
            StrLit ''mass'',
            StrLit ''pedi'',
            StrLit ''age'',
            StrLit ''class'']),
      Assign (Name ''dataframe'')
        (Call (Name ''read_csv'') [Name ''filename''] [(''names'', Name ''names'')]),
      Assign (Name ''array'') (Attribute (Name ''dataframe'') ''values''),
      Assign (Name ''X'')
        (Subscript (Name ''array'')
           (TupleE [Slice None None, Slice (Some (IntLit 0)) (Some (IntLit 8))])),
      Assign (Name ''Y'') (Subscript (Name ''array'') (TupleE [Slice None None, IntLit 8]))],
     [Assign (Name ''pca'') (Call (Name ''PCA'') [] [(''n_components'', IntLit 3)]),
      Assign (Name ''fit'') (Call (Attribute (Name ''pca'') ''fit'') [Name ''X''] []),
      Expr
        (Call (Name ''print'')
           [BinOp (StrLit ''Explained Variance: %s'') Mod
              (Attribute (Name ''fit'') ''explained_variance_ratio_'')] []),
      Expr (Call (Name ''print'') [Attribute (Name ''fit'') ''components_''] [])],
     [ImportFrom ''pandas'' ''read_csv'' None,
      ImportFrom ''sklearn.ensemble'' ''ExtraTreesClassifier'' None],
     [Assign (Name ''names'')
        (ListE
           [StrLit ''preg'',
            StrLit ''plas'',
            StrLit ''pres'',
            StrLit ''skin'',
            StrLit ''test'',
            StrLit ''mass'',
            StrLit ''pedi'',
            StrLit ''age'',
            StrLit ''class'']),
      Assign (Name ''dataframe'')
        (Call (Name ''read_csv'') [Name ''filename''] [(''names'', Name ''names'')]),
      Assign (Name ''array'') (Attribute (Name ''dataframe'') ''values''),
      Assign (Name ''X'')
        (Subscript (Name ''array'')
           (TupleE [Slice None None, Slice (Some (IntLit 0)) (Some (IntLit 8))])),
      Assign (Name ''Y'') (Subscript (Name ''array'') (TupleE [Slice None None, IntLit 8]))],
     [Assign (Name ''model'')
        (Call (Name ''ExtraTreesClassifier'') [] [(''n_estimators'', IntLit 10)]),
      Expr (Call (Attribute (Name ''model'') ''fit'') [Name ''X'', Name ''Y''] []),
      Expr (Call (Name ''print'') [Attribute (Name ''model'') ''feature_importances_''] [])],
     []]\<close>

text \<open>\<^verbatim>\<open>src/Notebooks/Others/Principal Component Analysis from Scratch.ipynb\<close>\<close>

definition pca_from_scratch :: notebook where
  \<open>pca_from_scratch =
    [[ImportFrom ''numpy'' ''array'' None,
      ImportFrom ''numpy'' ''mean'' None,
      ImportFrom ''numpy'' ''cov'' None,
      ImportFrom ''numpy.linalg'' ''eig'' None],
     [Assign (Name ''A'')
        (Call (Name ''array'')
           [ListE
              [ListE [IntLit 1, IntLit 2],
               ListE [IntLit 3, IntLit 4],
               ListE [IntLit 5, IntLit 6]]] []),
      Expr (Call (Name ''print'') [Name ''A''] [])],
     [Assign (Name ''M'')
        (Call (Name ''mean'') [Attribute (Name ''A'') ''T''] [(''axis'', IntLit 1)]),
      Expr (Call (Name ''print'') [Name ''M''] [])],
     [Assign (Name ''C'') (BinOp (Name ''A'') Sub (Name ''M'')),
      Expr (Call (Name ''print'') [Name ''C''] [])],
     [Assign (Name ''V'') (Call (Name ''cov'') [Attribute (Name ''C'') ''T''] []),
      Expr (Call (Name ''print'') [Name ''V''] [])],
     [Assign (TupleE [Name ''values'', Name ''vectors''])
        (Call (Name ''eig'') [Name ''V''] []),
      Expr (Call (Name ''print'') [StrLit ''eigenvectors:''] []),
      Expr (Call (Name ''print'') [Name ''vectors''] []),
      Expr (Call (Name ''print'') [StrLit ''eigenvalues:''] []),
      Expr (Call (Name ''print'') [Name ''values''] [])],
     [Assign (Name ''P'')
        (Call (Attribute (Attribute (Name ''vectors'') ''T'') ''dot'')
           [Attribute (Name ''C'') ''T''] []),
      Expr (Call (Name ''print'') [Attribute (Name ''P'') ''T''] [])],
     [ImportFrom ''numpy'' ''array'' None, ImportFrom ''sklearn.decomposition'' ''PCA'' None],
     [Assign (Name ''A'')
        (Call (Name ''array'')
           [ListE
              [ListE [IntLit 1, IntLit 2],
               ListE [IntLit 3, IntLit 4],
               ListE [IntLit 5, IntLit 6]]] []),
      Expr (Call (Name ''print'') [Name ''A''] [])],
     [Assign (Name ''pca'') (Call (Name ''PCA'') [IntLit 2] [])],
     [Expr (Call (Attribute (Name ''pca'') ''fit'') [Name ''A''] [])],
     [Expr (Call (Name ''print'') [Attribute (Name ''pca'') ''components_''] []),
      Expr (Call (Name ''print'') [Attribute (Name ''pca'') ''explained_variance_''] [])],
     [Assign (Name ''B'') (Call (Attribute (Name ''pca'') ''transform'') [Name ''A''] []),
      Expr (Call (Name ''print'') [Name ''B''] [])],
     []]\<close>

text \<open>The seven notebooks, in the order used by the theorems below.\<close>

definition repository :: "notebook list" where
  "repository = [Intro_to_CuPy, Dask_array_function, kmeans_demo, forest_inference_demo,
     nearest_neighbors_demo, feature_selection, pca_from_scratch]"

section \<open>Reading the code cells\<close>

text \<open>Every expression with all the expressions inside it, outermost first.\<close>

fun subexprs :: "expr \<Rightarrow> expr list" where
  "subexprs (UnaryOp op e) = UnaryOp op e # subexprs e"
| "subexprs (Attribute e a) = Attribute e a # subexprs e"
| "subexprs (Call f args kws) =
     Call f args kws # subexprs f @ concat (map subexprs args)
       @ concat (map (\<lambda>(k, e). subexprs e) kws)"
| "subexprs (BinOp l op r) = BinOp l op r # subexprs l @ subexprs r"
| "subexprs (Compare l op r) = Compare l op r # subexprs l @ subexprs r"
| "subexprs (Subscript e i) = Subscript e i # subexprs e @ subexprs i"
| "subexprs (Slice lo hi) =
     Slice lo hi # (case lo of None \<Rightarrow> [] | Some e \<Rightarrow> subexprs e)
       @ (case hi of None \<Rightarrow> [] | Some e \<Rightarrow> subexprs e)"
| "subexprs (TupleE es) = TupleE es # concat (map subexprs es)"
| "subexprs (ListE es) = ListE es # concat (map subexprs es)"
| "subexprs (DictE kvs) = DictE kvs # concat (map (\<lambda>(k, v). subexprs k @ subexprs v) kvs)"
| "subexprs (Lambda ps e) = Lambda ps e # subexprs e"
| "subexprs (ListComp e t i) = ListComp e t i # subexprs e @ subexprs t @ subexprs i"
| "subexprs (IfExp c a b) = IfExp c a b # subexprs c @ subexprs a @ subexprs b"
| "subexprs e = [e]"

text \<open>
  Every statement with the statements nested in it; \<open>outer_stmts\<close> stops at a function
  definition, whose body runs only when the function is called.
\<close>

fun substmts :: "stmt \<Rightarrow> stmt list" where
  "substmts (If c a b) = If c a b # concat (map substmts a) @ concat (map substmts b)"
| "substmts (FunctionDef f ps body) = FunctionDef f ps body # concat (map substmts body)"
| "substmts (Try body hs fin) =
     Try body hs fin # concat (map substmts body)
       @ concat (map (\<lambda>h. concat (map substmts h)) hs) @ concat (map substmts fin)"
| "substmts (For t i body) = For t i body # concat (map substmts body)"
| "substmts (While c body) = While c body # concat (map substmts body)"
| "substmts s = [s]"

fun outer_stmts :: "stmt \<Rightarrow> stmt list" where
  "outer_stmts (If c a b) = If c a b # concat (map outer_stmts a) @ concat (map outer_stmts b)"
| "outer_stmts (Try body hs fin) =
     Try body hs fin # concat (map outer_stmts body)
       @ concat (map (\<lambda>h. concat (map outer_stmts h)) hs) @ concat (map outer_stmts fin)"
| "outer_stmts (For t i body) = For t i body # concat (map outer_stmts body)"
| "outer_stmts (While c body) = While c body # concat (map outer_stmts body)"
| "outer_stmts s = [s]"

text \<open>The expressions that a statement itself evaluates.\<close>

fun stmt_exprs :: "stmt \<Rightarrow> expr list" where
  "stmt_exprs (Assign t v) = [t, v]"
| "stmt_exprs (AugAssign t op v) = [t, v]"
| "stmt_exprs (Expr e) = [e]"
| "stmt_exprs (If c a b) = [c]"
| "stmt_exprs (Raise e) = [e]"
| "stmt_exprs (Return e) = [e]"
| "stmt_exprs (For t i body) = [t, i]"
| "stmt_exprs (While c body) = [c]"
| "stmt_exprs s = []"

definition exprs_of :: "stmt list \<Rightarrow> expr list" where
  "exprs_of ss = concat (map subexprs (concat (map stmt_exprs ss)))"

definition nb_stmts :: "notebook \<Rightarrow> stmt list" where
  "nb_stmts nb = concat (map substmts (concat nb))"

definition top_level :: "notebook \<Rightarrow> stmt list" where
  "top_level nb = concat (map outer_stmts (concat nb))"

subsection \<open>Calls\<close>

text \<open>
  The calls inside an expression, a call before the calls in its callee and arguments,
  and the calls that a list of statements evaluates.
\<close>

fun calls_in :: "expr \<Rightarrow> expr list" where
  "calls_in (Call f args kws) =
     Call f args kws # calls_in f @ concat (map calls_in args)
       @ concat (map (\<lambda>(k, e). calls_in e) kws)"
| "calls_in (UnaryOp op e) = calls_in e"
| "calls_in (Attribute e a) = calls_in e"
| "calls_in (BinOp l op r) = calls_in l @ calls_in r"
| "calls_in (Compare l op r) = calls_in l @ calls_in r"
| "calls_in (Subscript e i) = calls_in e @ calls_in i"
| "calls_in (Slice lo hi) =
     (case lo of None \<Rightarrow> [] | Some e \<Rightarrow> calls_in e)
       @ (case hi of None \<Rightarrow> [] | Some e \<Rightarrow> calls_in e)"
| "calls_in (TupleE es) = concat (map calls_in es)"
| "calls_in (ListE es) = concat (map calls_in es)"
| "calls_in (DictE kvs) = concat (map (\<lambda>(k, v). calls_in k @ calls_in v) kvs)"
| "calls_in (Lambda ps e) = calls_in e"
| "calls_in (ListComp e t i) = calls_in e @ calls_in t @ calls_in i"
| "calls_in (IfExp c a b) = calls_in c @ calls_in a @ calls_in b"
| "calls_in e = []"

definition stmt_calls :: "stmt list \<Rightarrow> expr list" where
  "stmt_calls ss = concat (map calls_in (concat (map stmt_exprs ss)))"

fun is_call :: "expr \<Rightarrow> bool" where
  "is_call (Call f args kws) = True"
| "is_call e = False"

fun callee :: "expr \<Rightarrow> expr" where
  "callee (Call f args kws) = f"
| "callee e = e"

definition calls :: "notebook \<Rightarrow> expr list" where
  "calls nb = stmt_calls (nb_stmts nb)"

definition callees :: "notebook \<Rightarrow> expr list" where
  "callees nb = map callee (calls nb)"

text \<open>\<open>np.linalg.svd\<close> as a string, the name at the root of such a chain, and its last name.\<close>

fun dotted :: "expr \<Rightarrow> string option" where
  "dotted (Name x) = Some x"
| "dotted (Attribute e a) = map_option (\<lambda>s. s @ ''.'' @ a) (dotted e)"
| "dotted e = None"

fun root :: "expr \<Rightarrow> expr" where
  "root (Attribute e a) = root e"
| "root e = e"

fun api_name :: "expr \<Rightarrow> string option" where
  "api_name (Name x) = Some x"
| "api_name (Attribute e a) = Some a"
| "api_name e = None"

subsection \<open>Exceptions, loops and function definitions\<close>

fun raised_by :: "stmt \<Rightarrow> expr list" where
  "raised_by (Raise e) = [e]"
| "raised_by s = []"

fun is_try :: "stmt \<Rightarrow> bool" where
  "is_try (Try body hs fin) = True"
| "is_try s = False"

fun is_loop :: "stmt \<Rightarrow> bool" where
  "is_loop (For t i body) = True"
| "is_loop (While c body) = True"
| "is_loop s = False"

definition raised :: "notebook \<Rightarrow> expr list" where
  "raised nb = concat (map raised_by (nb_stmts nb))"

definition handlers :: "notebook \<Rightarrow> stmt list" where
  "handlers nb = filter is_try (nb_stmts nb)"

definition loops :: "notebook \<Rightarrow> stmt list" where
  "loops nb = filter is_loop (nb_stmts nb)"

fun def_of :: "stmt \<Rightarrow> (string \<times> string list \<times> stmt list) list" where
  "def_of (FunctionDef f ps body) = [(f, ps, body)]"
| "def_of s = []"

definition definitions :: "notebook \<Rightarrow> (string \<times> string list \<times> stmt list) list" where
  "definitions nb = concat (map def_of (nb_stmts nb))"

definition defined_functions :: "notebook \<Rightarrow> string list" where
  "defined_functions nb = map fst (definitions nb)"

definition body_callees :: "notebook \<Rightarrow> string \<Rightarrow> expr list" where
  "body_callees nb f =
     (case map_of (definitions nb) f of
        None \<Rightarrow> []
      | Some (ps, body) \<Rightarrow>
          map callee (stmt_calls (concat (map substmts body))))"

text \<open>
  The forest inference notebook's second code cell, as a function of what \<open>has_xgboost()\<close>
  returns:
  \<^verbatim>\<open>
  if has_xgboost():
      import xgboost as xgb
  else:
      raise ImportError("Please install xgboost using the conda package,"
                        " Use conda install -c conda-forge xgboost "
                        "command to install xgboost")
  \<close>
\<close>

definition install_xgboost_message :: string where
  "install_xgboost_message =
     ''Please install xgboost using the conda package, Use conda install -c conda-forge xgboost command to install xgboost''"

definition xgboost_check_cell :: "bool \<Rightarrow> py_error + unit" where
  "xgboost_check_cell has_xgboost =
     (if has_xgboost then Inr () else Inl (ImportError install_xgboost_message))"

subsection \<open>Where a called name comes from\<close>

text \<open>The names that the import statements bind, and the modules they load.\<close>

fun imported_by :: "stmt \<Rightarrow> string list" where
  "imported_by (Import m None) = [takeWhile (\<lambda>c. c \<noteq> CHR ''.'') m]"
| "imported_by (Import m (Some a)) = [a]"
| "imported_by (ImportFrom m n None) = [n]"
| "imported_by (ImportFrom m n (Some a)) = [a]"
| "imported_by s = []"

fun module_of :: "stmt \<Rightarrow> string list" where
  "module_of (Import m a) = [m]"
| "module_of (ImportFrom m n a) = [m]"
| "module_of s = []"

definition imported_names :: "notebook \<Rightarrow> string list" where
  "imported_names nb = concat (map imported_by (nb_stmts nb))"

definition imported_modules :: "notebook \<Rightarrow> string list" where
  "imported_modules nb = remdups (concat (map module_of (nb_stmts nb)))"

text \<open>The Python builtins that the notebooks call.\<close>

definition builtins :: "string list" where
  "builtins = [''print'', ''len'', ''list'', ''map'', ''zip'', ''int'', ''ImportError'']"

text \<open>
  A call is a \<open>LocalCall\<close> when it calls a function that the notebook defines, a
  \<open>LibraryCall\<close> when the callee is an imported name or an attribute chain on one
  (\<open>np.linalg.svd\<close>), a \<open>BuiltinCall\<close> when it is a builtin's name, and a \<open>MethodCall\<close>
  when it is an attribute of a variable or of another expression (\<open>est.fit\<close>).
\<close>

datatype call_kind = LibraryCall | BuiltinCall | MethodCall | LocalCall | OtherCall

definition kind_of_call :: "notebook \<Rightarrow> expr \<Rightarrow> call_kind" where
  "kind_of_call nb f =
     (case root f of
        Name x \<Rightarrow>
          if x \<in> set (defined_functions nb) then (if f = Name x then LocalCall else MethodCall)
          else if x \<in> set (imported_names nb) then LibraryCall
          else if f = Name x then (if x \<in> set builtins then BuiltinCall else OtherCall)
          else MethodCall
      | _ \<Rightarrow> (case f of Attribute e a \<Rightarrow> MethodCall | _ \<Rightarrow> OtherCall))"

definition calls_of_kind :: "call_kind \<Rightarrow> notebook \<Rightarrow> expr list" where
  "calls_of_kind k nb = [f \<leftarrow> callees nb. kind_of_call nb f = k]"

subsection \<open>Timing, printing and plotting\<close>

definition time_time :: expr where
  "time_time = Call (Attribute (Name ''time'') ''time'') [] []"

text \<open>The magics \<open>%time\<close>, \<open>%%time\<close>, \<open>%timeit\<close> and \<open>%%timeit\<close>.\<close>

fun time_magic_of :: "stmt \<Rightarrow> string list" where
  "time_magic_of (Magic m) = (if take 5 m = ''%time'' \<or> take 6 m = ''%%time'' then [m] else [])"
| "time_magic_of s = []"

definition time_magics :: "notebook \<Rightarrow> string list" where
  "time_magics nb = concat (map time_magic_of (nb_stmts nb))"

definition clock_calls :: "notebook \<Rightarrow> expr list" where
  "clock_calls nb =
     [c \<leftarrow> calls nb. root (callee c) \<in> set [Name ''time'', Name ''timeit'', Name ''datetime'']]"

definition wall_clock_timed :: "notebook \<Rightarrow> bool" where
  "wall_clock_timed nb \<longleftrightarrow> 0 < length (clock_calls nb) + length (time_magics nb)"

definition prints :: "notebook \<Rightarrow> expr list" where
  "prints nb = [c \<leftarrow> calls nb. callee c = Name ''print'']"

definition plots :: "notebook \<Rightarrow> expr list" where
  "plots nb = [c \<leftarrow> calls nb. dotted (callee c) = Some ''plt.show'']"

subsection \<open>The timing blocks of the CuPy demo\<close>

text \<open>
  A timing block is what a cell runs between \<^verbatim>\<open>s = time.time()\<close> and the next
  \<^verbatim>\<open>e = time.time()\<close>. It is a GPU block when one of its statements other than the
  synchronisation uses \<open>cp\<close> or the GPU array \<open>x_gpu\<close>. A block is synchronised when
  \<^verbatim>\<open>cp.cuda.Stream.null.synchronize()\<close> stands after its last GPU operation, hence
  before the stop timestamp that ends the block.
\<close>

definition synchronize_call :: expr where
  "synchronize_call =
     Call (Attribute (Attribute (Attribute (Attribute (Name ''cp'') ''cuda'') ''Stream'') ''null'')
        ''synchronize'') [] []"

definition is_start :: "stmt \<Rightarrow> bool" where
  "is_start s \<longleftrightarrow> s = Assign (Name ''s'') time_time"

definition is_stop :: "stmt \<Rightarrow> bool" where
  "is_stop s \<longleftrightarrow> s = Assign (Name ''e'') time_time"

definition is_sync :: "stmt \<Rightarrow> bool" where
  "is_sync s \<longleftrightarrow> s = Expr synchronize_call"

definition uses_gpu :: "stmt \<Rightarrow> bool" where
  "uses_gpu s \<longleftrightarrow>
     \<not> is_sync s \<and> list_ex (\<lambda>e. e = Name ''cp'' \<or> e = Name ''x_gpu'') (exprs_of [s])"

fun blocks_from :: "stmt list option \<Rightarrow> stmt list \<Rightarrow> stmt list list" where
  "blocks_from cur [] = []"
| "blocks_from cur (x # xs) =
     (if is_start x then blocks_from (Some []) xs
      else case cur of
             None \<Rightarrow> blocks_from None xs
           | Some b \<Rightarrow>
               if is_stop x then b # blocks_from None xs
               else blocks_from (Some (b @ [x])) xs)"

definition timing_blocks :: "notebook \<Rightarrow> stmt list list" where
  "timing_blocks nb = concat (map (blocks_from None) nb)"

definition gpu_timing_blocks :: "notebook \<Rightarrow> stmt list list" where
  "gpu_timing_blocks nb = filter (list_ex uses_gpu) (timing_blocks nb)"

definition after_last_gpu_op :: "stmt list \<Rightarrow> stmt list" where
  "after_last_gpu_op b = rev (takeWhile (\<lambda>s. \<not> uses_gpu s) (rev b))"

definition synchronized :: "stmt list \<Rightarrow> bool" where
  "synchronized b \<longleftrightarrow> list_ex is_sync (after_last_gpu_op b)"

text \<open>
  What a cell does with a timing block's two timestamps is in the statements that follow
  the stop timestamp, up to the next start timestamp of the cell. The block's elapsed time
  is printed when they begin with \<^verbatim>\<open>v = e - s\<close> and \<^verbatim>\<open>print(v)\<close>; \<open>elapsed_printed\<close> is then
  the variable \<open>v\<close>. \<open>timing_reports\<close> lists these statements block by block, in the order of
  \<open>timing_blocks\<close>.
\<close>

fun reports_from :: "bool \<Rightarrow> stmt list \<Rightarrow> stmt list list" where
  "reports_from started [] = []"
| "reports_from started (x # xs) =
     (if is_start x then reports_from True xs
      else if started \<and> is_stop x
        then takeWhile (\<lambda>s. \<not> is_start s) xs # reports_from False xs
      else reports_from started xs)"

definition timing_reports :: "notebook \<Rightarrow> stmt list list" where
  "timing_reports nb = concat (map (reports_from False) nb)"

definition elapsed_printed :: "stmt list \<Rightarrow> string option" where
  "elapsed_printed ss =
     (case ss of
        Assign (Name v) rhs # rest \<Rightarrow>
          if take 2 ss = [Assign (Name v) (BinOp (Name ''e'') Sub (Name ''s'')),
                          Expr (Call (Name ''print'') [Name v] [])]
          then Some v else None
      | _ \<Rightarrow> None)"

text \<open>The variables that the statements of a block assign or update in place.\<close>

fun target_of :: "stmt \<Rightarrow> string list" where
  "target_of (Assign (Name x) v) = [x]"
| "target_of (AugAssign (Name x) op v) = [x]"
| "target_of s = []"

definition assigned_in :: "stmt list \<Rightarrow> string list" where
  "assigned_in b = remdups (concat (map target_of b))"

text \<open>The cells that a timing magic heads: IPython times the whole cell.\<close>

definition timed_cells :: "notebook \<Rightarrow> cell list" where
  "timed_cells nb = [c \<leftarrow> nb. concat (map time_magic_of (take 1 c)) \<noteq> []]"

subsection \<open>Files\<close>

text \<open>
  The library functions and methods that write a file or read one, by their last name.
  Of the names that the notebooks call (lemma \<open>repository_api_names\<close>) these lists hold
  \<open>save_model\<close>, \<open>read_csv\<close> and \<open>load\<close>.
\<close>

definition writer_apis :: "string list" where
  "writer_apis = [''save_model'', ''save'', ''savez'', ''savetxt'', ''savefig'', ''to_csv'',
     ''to_parquet'', ''to_pickle'', ''dump'', ''tofile'', ''write'', ''open'']"

definition reader_apis :: "string list" where
  "reader_apis = [''read_csv'', ''load'', ''loadtxt'', ''read_parquet'', ''read_pickle'',
     ''fromfile'', ''read'', ''open'']"

definition calls_api :: "string list \<Rightarrow> expr \<Rightarrow> bool" where
  "calls_api apis c \<longleftrightarrow>
     is_call c \<and> (case api_name (callee c) of None \<Rightarrow> False | Some a \<Rightarrow> a \<in> set apis)"

definition persisting_calls :: "notebook \<Rightarrow> expr list" where
  "persisting_calls nb = filter (calls_api writer_apis) (calls nb)"

text \<open>
  The path that such a call names: its first positional argument or its \<open>filename\<close>
  keyword, a string literal or a name. A name is looked up among the string constants
  that the notebook assigns at top level; inside a function body the parameters come
  first, bound to what the arguments of the top-level call resolve to.
\<close>

type_synonym str_env = "(string \<times> string option) list"

fun str_binding :: "stmt \<Rightarrow> str_env" where
  "str_binding (Assign (Name v) (StrLit s)) = [(v, Some s)]"
| "str_binding s = []"

definition global_strings :: "notebook \<Rightarrow> str_env" where
  "global_strings nb = concat (map str_binding (top_level nb))"

fun resolve :: "str_env \<Rightarrow> expr \<Rightarrow> string option" where
  "resolve env (StrLit s) = Some s"
| "resolve env (Name v) = (case map_of env v of None \<Rightarrow> None | Some r \<Rightarrow> r)"
| "resolve env e = None"

fun path_of :: "str_env \<Rightarrow> expr \<Rightarrow> string option" where
  "path_of env (Call f (a # args) kws) = resolve env a"
| "path_of env (Call f [] kws) =
     (case map_of kws ''filename'' of None \<Rightarrow> None | Some a \<Rightarrow> resolve env a)"
| "path_of env e = None"

fun bind_params :: "str_env \<Rightarrow> string list \<Rightarrow> expr list \<Rightarrow> str_env" where
  "bind_params env (p # ps) (a # args) = (p, resolve env a) # bind_params env ps args"
| "bind_params env ps args = []"

fun paths_in_call :: "notebook \<Rightarrow> string list \<Rightarrow> expr \<Rightarrow> string option list" where
  "paths_in_call nb apis (Call (Name f) args kws) =
     (case map_of (definitions nb) f of
        None \<Rightarrow> [path_of (global_strings nb) (Call (Name f) args kws). f \<in> set apis]
      | Some (ps, body) \<Rightarrow>
          map (path_of (bind_params (global_strings nb) ps args @ global_strings nb))
            (filter (calls_api apis) (stmt_calls (concat (map substmts body)))))"
| "paths_in_call nb apis c = [path_of (global_strings nb) c. calls_api apis c]"

definition paths :: "string list \<Rightarrow> notebook \<Rightarrow> string option list" where
  "paths apis nb =
     concat (map (paths_in_call nb apis) (stmt_calls (top_level nb)))"

definition files_written :: "notebook \<Rightarrow> string option list" where
  "files_written = paths writer_apis"

definition files_read :: "notebook \<Rightarrow> string option list" where
  "files_read = paths reader_apis"

subsection \<open>The CuPy demo's statements as kernel transformers\<close>

text \<open>
  The statement forms of the CuPy demo, translated to the kernel transformers of the
  timing-cell model above; any other statement has no translation.
\<close>

fun dims_of :: "expr list \<Rightarrow> nat list option" where
  "dims_of [] = Some []"
| "dims_of (IntLit n # es) = map_option ((#) (nat n)) (dims_of es)"
| "dims_of (e # es) = None"

definition compile :: "clock \<Rightarrow> stmt \<Rightarrow> stmt_fn option" where
  "compile clk s =
     (case s of
        Assign (Name v) e \<Rightarrow>
          if e = time_time then Some (stamp clk v)
          else if e = BinOp (Name ''e'') Sub (Name ''s'') then Some (elapsed v)
          else (case e of
                  Call f [TupleE ds] [] \<Rightarrow>
                    if f = Attribute (Name ''np'') ''ones'' \<or> f = Attribute (Name ''cp'') ''ones''
                    then map_option (ones v) (dims_of ds) else None
                | _ \<Rightarrow> None)
      | AugAssign (Name v) op e \<Rightarrow>
          if op = Mult \<and> e = Name v then Some (imul_self v)
          else if op = Add \<and> e = Name v then Some (iadd_self v)
          else (case e of
                  IntLit c \<Rightarrow> if op = Mult then Some (imul v (real_of_int c)) else None
                | _ \<Rightarrow> None)
      | Expr e \<Rightarrow>
          if e = synchronize_call then Some synchronize
          else (case e of
                  Call f [Name v] [] \<Rightarrow>
                    if f = Name ''print'' then Some (print_var v) else None
                | Call f [BinOp (Name a) Div (Name b)] [] \<Rightarrow>
                    if f = Name ''print'' then Some (print_ratio a b) else None
                | _ \<Rightarrow> None)
      | _ \<Rightarrow> None)"

section \<open>Properties of double-precision rounding\<close>
































section \<open>Properties of the k-means comparison cell\<close>










section \<open>Properties of the CuPy timing cells\<close>



text \<open>
  The timing cells modelled above are the notebook's code cells 2, 3, 7, 8 and 9 (counting
  code cells from 0), statement by statement.
\<close>

lemma cells_as_parsed:
  "map (compile clk) (Intro_to_CuPy ! 2) = map Some (cell_create_100M clk)"
  "map (compile clk) (Intro_to_CuPy ! 3) = map Some (cell_multiply_100M clk)"
  "map (compile clk) (Intro_to_CuPy ! 7) = map Some (cell_create_10M clk)"
  "map (compile clk) (Intro_to_CuPy ! 8) = map Some (cell_multiply_10M clk)"
  "map (compile clk) (Intro_to_CuPy ! 9) = map Some (cell_create_multiply_100M clk)"
  by (simp_all add: Intro_to_CuPy_def compile_def time_time_def synchronize_call_def
      cell_create_100M_def cell_multiply_100M_def cell_create_10M_def cell_multiply_10M_def
      cell_create_multiply_100M_def)





section \<open>Properties of the index comparison cell\<close>

lemma row_diffs_second_row:
  assumes "2 \<le> length I_sk" and "2 \<le> length I_cuml"
  shows "py_getitem (row_diffs I_sk I_cuml) 1 =
     Inr (map (\<lambda>(x, y). x - y) (zip (sort (I_sk ! 1)) (sort (I_cuml ! 1))))"
  using assms by (simp add: py_getitem_def row_diffs_def Let_def)

text \<open>
  C8. Whatever the two index arrays hold, \<open>diff != 0\<close> is \<open>True\<close> and \<open>diff[True]\<close> is the
  second row of \<open>diff\<close>, so \<open>passed\<close> compares (row length / \<open>n\<close>) with \<open>1e-9\<close>. For arrays
  with at least two rows whose second rows have \<open>n_neighbors = 4\<close> entries (the arrays of
  the notebook have \<open>n_query = 2 ^ 13\<close> rows of \<open>n_neighbors\<close> entries) and
  \<open>n_samples = 2 ^ 17\<close>, the cell prints "NOT equal".
\<close>

theorem index_compare_ignores_contents:
  assumes "2 \<le> length I_sk" and "2 \<le> length I_cuml"
    and "length (I_sk ! 1) = n_neighbors" and "length (I_cuml ! 1) = n_neighbors"
  shows "(n \<noteq> 0 \<longrightarrow> index_compare_cell I_sk I_cuml n =
            Inr (''compare knn: cuml vs sklearn indexes '' @
              (if real n_neighbors / real_of_int n < 1 / 10 ^ 9 then ''equal''
               else ''NOT equal'')))
     \<and> index_compare_cell I_sk I_cuml n_samples =
         Inr ''compare knn: cuml vs sklearn indexes NOT equal''"
proof -
  have sel: "py_getitem (row_diffs I_sk I_cuml) (int_of_bool (list_ne_int (row_diffs I_sk I_cuml) 0))
      = Inr (map (\<lambda>(x, y). x - y) (zip (sort (I_sk ! 1)) (sort (I_cuml ! 1))))"
    using row_diffs_second_row [OF assms(1,2)] by (simp add: int_of_bool_def list_ne_int_def)
  have len: "length (map (\<lambda>(x, y). x - y) (zip (sort (I_sk ! 1)) (sort (I_cuml ! 1)))) = n_neighbors"
    using assms(3,4) by simp
  have general: "n \<noteq> 0 \<longrightarrow> index_compare_cell I_sk I_cuml n =
            Inr (''compare knn: cuml vs sklearn indexes '' @
              (if real n_neighbors / real_of_int n < 1 / 10 ^ 9 then ''equal''
               else ''NOT equal''))" for n
    unfolding index_compare_cell_def Let_def sel sum.case len by simp
  have "\<not> real n_neighbors / real_of_int n_samples < 1 / 10 ^ 9"
    by (simp add: n_neighbors_def n_samples_def)
  moreover have "n_samples \<noteq> 0"
    by (simp add: n_samples_def)
  ultimately have "index_compare_cell I_sk I_cuml n_samples =
         Inr ''compare knn: cuml vs sklearn indexes NOT equal''"
    using general [of n_samples] by simp
  then show ?thesis
    using general by blast
qed

text \<open>Two identical index arrays, and two that share no index, get the same verdict.\<close>

theorem index_compare_ignores_contents_witness:
  "index_compare_cell [[0, 7, 5, 9], [1, 4, 3, 2]] [[0, 7, 5, 9], [1, 4, 3, 2]] n_samples =
     Inr ''compare knn: cuml vs sklearn indexes NOT equal''
   \<and> index_compare_cell [[0, 7, 5, 9], [1, 4, 3, 2]] [[10, 11, 12, 13], [20, 21, 22, 23]] n_samples =
     Inr ''compare knn: cuml vs sklearn indexes NOT equal''"
  using index_compare_ignores_contents
      [of "[[0, 7, 5, 9], [1, 4, 3, 2]]" "[[0, 7, 5, 9], [1, 4, 3, 2]]" n_samples]
    index_compare_ignores_contents
      [of "[[0, 7, 5, 9], [1, 4, 3, 2]]" "[[10, 11, 12, 13], [20, 21, 22, 23]]" n_samples]
  by (simp add: n_neighbors_def)

section \<open>Properties of the manual PCA pipeline\<close>


























section \<open>Properties of the notebooks' code\<close>

text \<open>
  The statements below are closed: each is evaluated on the code cells of the seven
  notebooks, listed in the order of \<open>repository\<close> (CuPy demo, Dask demo, k-means,
  forest inference, nearest neighbours, feature selection, PCA from scratch).
\<close>

lemma repository_api_names:
  "remdups (concat (map (map (api_name \<circ> callee) \<circ> calls) repository)) =
     map Some
      [''ones'', ''synchronize'', ''time'', ''from_array'', ''svd'', ''compute'', ''axes'',
       ''plot'', ''set_facecolor'', ''set_xlabel'', ''set_ylabel'', ''axis'', ''random'',
       ''normal'', ''LinearRegression'', ''linspace'', ''Series'', ''skKMeans'', ''cuKMeans'',
       ''figure'', ''scatter'', ''asnumpy'', ''title'', ''show'', ''to_array'',
       ''adjusted_rand_score'', ''has_xgboost'', ''ImportError'', ''train'', ''save_model'',
       ''DMatrix'', ''around'', ''RandomState'', ''make_classification'', ''int'', ''astype'',
       ''train_test_split'', ''train_xgboost_model'', ''predict_xgboost_model'', ''load'',
       ''predict'', ''all'', ''make_blobs'', ''DataFrame'', ''to_pandas'',
       ''skNearestNeighbors'', ''cuNearestNeighbors'', ''kneighbors'', ''allclose'', ''sort'',
       ''list'', ''map'', ''zip'', ''len'', ''SelectKBest'', ''set_printoptions'',
       ''LogisticRegression'', ''RFE'', ''read_csv'', ''ExtraTreesClassifier'', ''mean'',
       ''cov'', ''eig'', ''dot'', ''array'', ''PCA'', ''fit'', ''transform'', ''print'']"
  by code_simp

subsection \<open>Error handling\<close>

text \<open>
  The forest inference notebook raises an exception of its own: its second code cell
  holds a \<open>raise\<close> statement that constructs an \<open>ImportError\<close>, and the cell raises it
  when \<open>has_xgboost()\<close> is false.
\<close>

theorem forest_inference_raises_counterexample:
  "raised forest_inference_demo = [Call (Name ''ImportError'') [StrLit install_xgboost_message] []]
   \<and> xgboost_check_cell False = Inl (ImportError install_xgboost_message)"
proof
  show "raised forest_inference_demo =
      [Call (Name ''ImportError'') [StrLit install_xgboost_message] []]"
    by code_simp
  show "xgboost_check_cell False = Inl (ImportError install_xgboost_message)"
    by (simp add: xgboost_check_cell_def)
qed

text \<open>
  C1 (as amended). No cell of any notebook contains a \<open>try\<close> statement, so nothing that a
  library raises is caught; and the only exception that notebook code constructs and
  raises is the \<open>ImportError\<close> of the forest inference notebook, in the \<open>else\<close> branch of
  its check \<open>if has_xgboost()\<close>.
\<close>

theorem no_handler_and_one_raise:
  "map handlers repository = [[], [], [], [], [], [], []]
   \<and> map raised repository =
       [[], [], [], [Call (Name ''ImportError'') [StrLit install_xgboost_message] []],
        [], [], []]
   \<and> forest_inference_demo ! 1 =
       [If (Call (Name ''has_xgboost'') [] [])
          [Import ''xgboost'' (Some ''xgb'')]
          [Raise (Call (Name ''ImportError'') [StrLit install_xgboost_message] [])]]"
  by code_simp

subsection \<open>What the notebooks implement themselves\<close>

text \<open>
  The forest inference notebook defines two functions and calls them; the body of
  \<open>train_xgboost_model\<close> builds a parameter dictionary and chains three calls. The
  PCA-from-scratch notebook centres the data with an operator of its own cell.
\<close>

theorem helper_functions_counterexample:
  "calls_of_kind LocalCall forest_inference_demo =
     [Name ''train_xgboost_model'', Name ''predict_xgboost_model'']
   \<and> map dotted (body_callees forest_inference_demo ''train_xgboost_model'') =
       [Some ''xgb.DMatrix'', Some ''xgb.train'', Some ''bst.save_model'']
   \<and> Assign (Name ''C'') (BinOp (Name ''A'') Sub (Name ''M'')) \<in> set (nb_stmts pca_from_scratch)"
  by code_simp

text \<open>
  C2 (as amended). Every call in every notebook calls an imported library function or
  class, a method of an object or a Python builtin, except the calls of the two functions
  that the forest inference notebook defines; their bodies call xgboost's \<open>DMatrix\<close>,
  \<open>train\<close>, \<open>save_model\<close> and \<open>predict\<close> and NumPy's \<open>around\<close>. SVD, k-means, nearest
  neighbours, forest inference, the eigendecomposition and feature selection are each
  exercised by such a library call, and no notebook contains a \<open>for\<close> or \<open>while\<close>
  statement. The manual part of the PCA-from-scratch notebook (its first seven code
  cells) calls \<open>array\<close>, \<open>mean\<close>, \<open>cov\<close>, \<open>eig\<close> and \<open>dot\<close>, which it composes into a PCA of
  its own, and \<open>print\<close>.
\<close>

theorem calls_are_library_calls_or_helpers:
  "map (calls_of_kind OtherCall) repository = [[], [], [], [], [], [], []]
   \<and> map (calls_of_kind LocalCall) repository =
       [[], [], [], [Name ''train_xgboost_model'', Name ''predict_xgboost_model''], [], [], []]
   \<and> map defined_functions repository =
       [[], [], [], [''train_xgboost_model'', ''predict_xgboost_model''], [], [], []]
   \<and> map dotted (body_callees forest_inference_demo ''train_xgboost_model'') =
       [Some ''xgb.DMatrix'', Some ''xgb.train'', Some ''bst.save_model'']
   \<and> map dotted (body_callees forest_inference_demo ''predict_xgboost_model'') =
       [Some ''xgb.DMatrix'', Some ''xgb_model.predict'', Some ''np.around'']
   \<and> list_all (\<lambda>k. Some k \<in> set (map dotted (concat (map callees repository))))
       [''np.linalg.svd'', ''kmeans_sk.fit'', ''kmeans_cuml.fit'', ''knn_sk.kneighbors'',
        ''knn_cuml.kneighbors'', ''fm.predict'', ''eig'', ''test.fit'', ''rfe.fit'', ''pca.fit'']
   \<and> map loops repository = [[], [], [], [], [], [], []]
   \<and> remdups (map dotted (callees (take 7 pca_from_scratch))) =
       [Some ''array'', Some ''mean'', Some ''cov'', Some ''eig'', Some ''vectors.T.dot'',
        Some ''print'']"
  by code_simp

subsection \<open>Timing and output\<close>

text \<open>
  The feature selection notebook and the PCA-from-scratch notebook read no clock and use
  no timing magic; they do not even import a module that has a clock.
\<close>

theorem untimed_notebooks_counterexample:
  "\<not> wall_clock_timed feature_selection \<and> \<not> wall_clock_timed pca_from_scratch
   \<and> clock_calls feature_selection = [] \<and> time_magics feature_selection = []
   \<and> clock_calls pca_from_scratch = [] \<and> time_magics pca_from_scratch = []
   \<and> imported_modules feature_selection =
       [''sklearn.feature_selection'', ''sklearn.linear_model'', ''numpy'',
        ''sklearn.decomposition'', ''pandas'', ''sklearn.ensemble'']
   \<and> imported_modules pca_from_scratch = [''numpy.linalg'', ''numpy'', ''sklearn.decomposition'']"
  by code_simp

text \<open>
  C3 (as amended). Five of the seven notebooks are timed. The CuPy demo reads
  \<open>time.time()\<close> 36 times, in 18 blocks of a start and a stop timestamp around the
  creation or the in-place update of \<open>x_cpu\<close> or \<open>x_gpu\<close>. After 16 of the blocks it assigns
  the elapsed time \<open>e - s\<close> to \<open>cpu_time\<close> or \<open>gpu_time\<close> and prints that variable; after the
  13th and the 17th, both \<^verbatim>\<open>x_cpu *= 5\<close>, it prints \<open>cpu_time\<close> without assigning it, so the
  elapsed time of these two blocks is not reported. The Dask, k-means, forest inference
  and nearest-neighbours notebooks use the \<open>%%time\<close> cell magic at the head of 8, 3, 2 and
  5 cells, and each of these cells makes at least one call. The feature selection and
  PCA-from-scratch notebooks are not timed. Every notebook prints or plots.
\<close>

theorem timing_and_output_per_notebook:
  "map wall_clock_timed repository = [True, True, True, True, True, False, False]
   \<and> map (length \<circ> clock_calls) repository = [36, 0, 0, 0, 0, 0, 0]
   \<and> map (length \<circ> timing_blocks) repository = [18, 0, 0, 0, 0, 0, 0]
   \<and> map assigned_in (timing_blocks Intro_to_CuPy) =
       [[''x_cpu''], [''x_gpu''], [''x_cpu''], [''x_gpu''], [''x_cpu''], [''x_gpu''],
        [''x_cpu''], [''x_gpu''], [''x_cpu''], [''x_gpu''], [''x_cpu''], [''x_gpu''],
        [''x_cpu''], [''x_gpu''], [''x_cpu''], [''x_gpu''], [''x_cpu''], [''x_gpu'']]
   \<and> map elapsed_printed (timing_reports Intro_to_CuPy) =
       [Some ''cpu_time'', Some ''gpu_time'', Some ''cpu_time'', Some ''gpu_time'',
        Some ''cpu_time'', Some ''gpu_time'', Some ''cpu_time'', Some ''gpu_time'',
        Some ''cpu_time'', Some ''gpu_time'', Some ''cpu_time'', Some ''gpu_time'',
        None, Some ''gpu_time'', Some ''cpu_time'', Some ''gpu_time'',
        None, Some ''gpu_time'']
   \<and> [br \<leftarrow> zip (timing_blocks Intro_to_CuPy) (timing_reports Intro_to_CuPy).
         elapsed_printed (snd br) = None] =
       [([AugAssign (Name ''x_cpu'') Mult (IntLit 5)],
         [Expr (Call (Name ''print'') [Name ''cpu_time''] [])]),
        ([AugAssign (Name ''x_cpu'') Mult (IntLit 5)],
         [Expr (Call (Name ''print'') [Name ''cpu_time''] [])])]
   \<and> map (length \<circ> time_magics) repository = [0, 8, 3, 2, 5, 0, 0]
   \<and> map (map (length \<circ> stmt_calls) \<circ> timed_cells) repository =
       [[], [1, 2, 1, 2, 1, 2, 1, 2], [2, 2, 3], [1, 1], [2, 2, 1, 2, 1], [], []]
   \<and> map (length \<circ> prints) repository = [27, 0, 1, 3, 2, 8, 13]
   \<and> map (length \<circ> plots) repository = [0, 1, 1, 0, 0, 0, 0]"
  by code_simp

subsection \<open>Synchronisation in the CuPy demo\<close>

lemma unsynchronized_block_detected:
  "\<not> synchronized [AugAssign (Name ''x_gpu'') Mult (IntLit 5)]
   \<and> \<not> synchronized [Expr synchronize_call, AugAssign (Name ''x_gpu'') Mult (IntLit 5)]
   \<and> synchronized [AugAssign (Name ''x_gpu'') Mult (IntLit 5), Expr synchronize_call]"
  by code_simp

text \<open>
  C5. The CuPy demo has nine GPU timing blocks (one in each of its first seven timing
  cells, two in the last). In every one of them the synchronisation call stands after the
  last CuPy operation, and it is the last statement before \<^verbatim>\<open>e = time.time()\<close>.
\<close>

theorem gpu_blocks_synchronize_before_stop:
  "length (gpu_timing_blocks Intro_to_CuPy) = 9
   \<and> list_all synchronized (gpu_timing_blocks Intro_to_CuPy)
   \<and> list_all (\<lambda>b. is_sync (last b)) (gpu_timing_blocks Intro_to_CuPy)"
  by code_simp

subsection \<open>State that outlives the kernel, and files\<close>

text \<open>
  The forest inference notebook calls \<open>bst.save_model(model_path)\<close> in
  \<open>train_xgboost_model\<close>, which it calls with \<open>model_path = 'xgb.model'\<close>: the trained
  model is written to a file.
\<close>

theorem model_saved_to_disk_counterexample:
  "persisting_calls forest_inference_demo =
     [Call (Attribute (Name ''bst'') ''save_model'') [Name ''model_path''] []]
   \<and> files_written forest_inference_demo = [Some ''xgb.model'']"
  by code_simp

text \<open>
  C6 (as amended). The only call of any notebook that creates state outside the kernel is
  \<open>bst.save_model(model_path)\<close> in the forest inference notebook, which writes the file
  \<open>xgb.model\<close>; no other notebook calls a function that writes a file.
\<close>

theorem only_saved_model_outlives_kernel:
  "map persisting_calls repository =
     [[], [], [], [Call (Attribute (Name ''bst'') ''save_model'') [Name ''model_path''] []],
      [], [], []]
   \<and> map files_written repository = [[], [], [], [Some ''xgb.model''], [], [], []]"
  by code_simp

text \<open>
  The forest inference notebook writes the file \<open>xgb.model\<close> and reads it back with
  \<open>ForestInference.load\<close>.
\<close>

theorem model_file_surface_counterexample:
  "files_written forest_inference_demo = [Some ''xgb.model'']
   \<and> files_read forest_inference_demo = [Some ''xgb.model'']
   \<and> global_strings forest_inference_demo = [(''model_path'', Some ''xgb.model'')]"
  by code_simp

text \<open>
  C7 (as amended). Beside their library calls, the notebooks touch two files: the feature
  selection notebook reads \<open>pima-indians-diabetes.csv\<close> (four times), and the forest
  inference notebook writes \<open>xgb.model\<close> and reads it back. The modules they import are
  numerical, plotting and timing libraries and \<open>os\<close>, of which nothing is called; the
  builtins they call are \<open>print\<close>, \<open>ImportError\<close>, \<open>int\<close>, \<open>list\<close>, \<open>map\<close>, \<open>zip\<close> and \<open>len\<close>.
\<close>

theorem file_surface_of_the_repository:
  "map files_read repository =
     [[], [], [], [Some ''xgb.model''], [],
      [Some ''pima-indians-diabetes.csv'', Some ''pima-indians-diabetes.csv'',
       Some ''pima-indians-diabetes.csv'', Some ''pima-indians-diabetes.csv''],
      []]
   \<and> map files_written repository = [[], [], [], [Some ''xgb.model''], [], [], []]
   \<and> remdups (concat (map imported_modules repository)) =
       [''time'', ''dask.array'', ''dask'', ''dask_glm.estimators'', ''cupy'',
        ''matplotlib.pyplot'', ''cuml.cluster'', ''sklearn.cluster'', ''os'',
        ''cuml.common.import_utils'', ''cuml'', ''sklearn.datasets'', ''sklearn.metrics'',
        ''sklearn.model_selection'', ''xgboost'', ''cudf'', ''cuml.datasets'',
        ''cuml.neighbors'', ''sklearn.neighbors'', ''sklearn.feature_selection'',
        ''sklearn.linear_model'', ''pandas'', ''sklearn.ensemble'', ''numpy.linalg'',
        ''numpy'', ''sklearn.decomposition'']
   \<and> [f \<leftarrow> concat (map callees repository). root f = Name ''os''] = []
   \<and> remdups (concat (map (calls_of_kind BuiltinCall) repository)) =
       map Name [''ImportError'', ''int'', ''list'', ''map'', ''zip'', ''len'', ''print'']"
  by code_simp

end
